theory Spec2Isabelle
  imports Main
begin

section \<open>The vector-document repository over a Milvus client\<close>

text \<open>
  A shallow embedding of \<^verbatim>\<open>repositories/datastore/milvus.go\<close>. The Milvus client and the
  text encoder are interfaces the repository is constructed with; they are parameters of
  the model. Every call of a client method is appended to a log of calls, and the
  backend behind the client is an abstract state that each call may read and change.
\<close>

subsection \<open>Errors and panics\<close>

text \<open>
  \<open>Error s\<close> is an error of a collaborator; \<open>Errorf msg e\<close> stands for
  \<^verbatim>\<open>fmt.Errorf(msg + ": %w", e)\<close>. A Go function returning \<^verbatim>\<open>(T, error)\<close> returns a
  pair whose second component is \<open>None\<close> for \<^verbatim>\<open>nil\<close>.
\<close>

datatype error = Error string | Errorf string error

datatype panic = IndexOutOfRange | NilDereference

subsection \<open>The domain document\<close>

record Document =
  ID :: string
  Title :: string
  Content :: string
  Category :: string

subsection \<open>The types of the client library that the code builds or reads\<close>

text \<open>
  The library is not part of the repository. Its named constants
  (\<^verbatim>\<open>entity.FieldTypeVarChar\<close>, \<^verbatim>\<open>entity.TypeParamMaxLength\<close>,
  \<^verbatim>\<open>entity.DefaultShardNumber\<close>, \<^verbatim>\<open>entity.COSINE\<close>, \<^verbatim>\<open>entity.ClStrong\<close>) are
  constructors here, and of its structs the records keep the fields that the code sets.
  The embedding field of the schema sets neither \<^verbatim>\<open>PrimaryKey\<close> nor \<^verbatim>\<open>AutoID\<close>, which
  are then false.
\<close>

datatype FieldType = FieldTypeVarChar | FieldTypeFloatVector

datatype TypeParamKey = TypeParamMaxLength | TypeParamDim

record Field =
  Name :: string
  DataType :: FieldType
  PrimaryKey :: bool
  AutoID :: bool
  TypeParams :: "TypeParamKey \<rightharpoonup> string"

record Schema =
  CollectionName :: string
  Description :: string
  SchemaAutoID :: bool
  Fields :: "Field list"

datatype ShardNumber = DefaultShardNumber

datatype MetricType = L2 | IP | COSINE

datatype Index = IndexIvfFlat MetricType int

datatype SearchParam = IndexIvfFlatSearchParam int

datatype ConsistencyLevel = ClStrong | ClSession | ClBounded | ClEventually | ClCustomized

record SearchQueryOption =
  Limit :: int
  Offset :: int
  ConsistencyLevel :: ConsistencyLevel
  IgnoreGrowing :: bool

datatype 'f Vector = FloatVector "'f list"

text \<open>The two column constructors the code calls when it writes.\<close>

datatype 'f Column =
    ColumnVarChar string "string list"
  | ColumnFloatVector string int "'f list list"

text \<open>
  A column of a search result is used through two methods of its interface only,
  \<^verbatim>\<open>Len()\<close> and \<^verbatim>\<open>GetAsString(i)\<close>. The fields of a result set are used through
  \<^verbatim>\<open>GetColumn(name)\<close> only, which gives \<^verbatim>\<open>nil\<close> (\<open>None\<close>) for a column that is absent.
\<close>

record ResultColumn =
  Len :: int
  GetAsString :: "int \<Rightarrow> string \<times> error option"

record SearchResult =
  GetColumn :: "string \<Rightarrow> ResultColumn option"

datatype Collection = Collection (CollName: string)

text \<open>
  The package-level constructors of the client library that can fail. The code checks the
  error of the first and discards the error of the second.
\<close>

record entity =
  NewIndexIvfFlat :: "MetricType \<Rightarrow> int \<Rightarrow> Index option \<times> error option"
  NewIndexIvfFlatSearchParam :: "int \<Rightarrow> SearchParam option \<times> error option"

subsection \<open>The collaborators\<close>

text \<open>
  The encoder: a text gives a vector, or an error. It is a function of the text; the
  type \<open>'f\<close> stands for \<^verbatim>\<open>float32\<close>, whose arithmetic the code never uses.
\<close>

record 'f TextEncoder =
  Encode :: "string \<Rightarrow> 'f list \<times> error option"

text \<open>
  The client methods the repository calls, each a function of its arguments and of the
  backend state \<open>'b\<close>, returning its results and the next backend state.
\<close>

record ('f, 'b) Client =
  Client_CreateCollection :: "Schema \<Rightarrow> ShardNumber \<Rightarrow> 'b \<Rightarrow> error option \<times> 'b"
  Client_DropCollection :: "string \<Rightarrow> 'b \<Rightarrow> error option \<times> 'b"
  Client_ListCollections :: "'b \<Rightarrow> (Collection list \<times> error option) \<times> 'b"
  Client_CreateIndex :: "string \<Rightarrow> string \<Rightarrow> Index option \<Rightarrow> bool \<Rightarrow> 'b \<Rightarrow> error option \<times> 'b"
  Client_Upsert :: "string \<Rightarrow> string \<Rightarrow> 'f Column list \<Rightarrow> 'b
     \<Rightarrow> ('f Column option \<times> error option) \<times> 'b"
  Client_LoadCollection :: "string \<Rightarrow> bool \<Rightarrow> 'b \<Rightarrow> error option \<times> 'b"
  Client_Search :: "string \<Rightarrow> string list \<Rightarrow> string \<Rightarrow> string list \<Rightarrow> 'f Vector list
     \<Rightarrow> string \<Rightarrow> MetricType \<Rightarrow> int \<Rightarrow> SearchParam option
     \<Rightarrow> (SearchQueryOption \<Rightarrow> SearchQueryOption) list \<Rightarrow> 'b
     \<Rightarrow> (SearchResult list \<times> error option) \<times> 'b"
  Client_ReleaseCollection :: "string \<Rightarrow> 'b \<Rightarrow> error option \<times> 'b"

record ('f, 'b) DatastoreMilvusRepository =
  Client :: "('f, 'b) Client"
  Encoder :: "'f TextEncoder"

subsection \<open>The log of client calls\<close>

datatype 'f call =
    CreateCollectionCall Schema ShardNumber
  | DropCollectionCall string
  | ListCollectionsCall
  | CreateIndexCall string string "Index option" bool
  | UpsertCall string string "'f Column list"
  | LoadCollectionCall string bool
  | SearchCall string "string list" string "string list" "'f Vector list"
      string MetricType int "SearchParam option"
      "(SearchQueryOption \<Rightarrow> SearchQueryOption) list"
  | ReleaseCollectionCall string

record ('f, 'b) world =
  calls :: "'f call list"
  backend :: 'b

definition issue :: "'f call \<Rightarrow> ('b \<Rightarrow> 'r \<times> 'b) \<Rightarrow> ('f, 'b) world \<Rightarrow> 'r \<times> ('f, 'b) world" where
  "issue c f w =
     (case f (backend w) of
        (r, b') \<Rightarrow> (r, \<lparr>calls = calls w @ [c], backend = b'\<rparr>))"

subsection \<open>Schema definition\<close>

definition digit :: "nat \<Rightarrow> char" where
  "digit n = char_of (48 + n)"

function decimal :: "nat \<Rightarrow> string" where
  "decimal n = (if n < 10 then [digit n] else decimal (n div 10) @ [digit (n mod 10)])"
  by pat_completeness auto
termination
  by (relation "measure (\<lambda>n. n)") auto

text \<open>\<^verbatim>\<open>fmt.Sprintf("%d", i)\<close>.\<close>

definition Sprintf_d :: "int \<Rightarrow> string" where
  "Sprintf_d i = (if i < 0 then CHR ''-'' # decimal (nat (- i)) else decimal (nat i))"

definition defineSchema :: "string \<Rightarrow> Schema" where
  "defineSchema collectionName =
     \<lparr>CollectionName = collectionName,
      Description = '''',
      SchemaAutoID = False,
      Fields =
        [\<lparr>Name = ''id'', DataType = FieldTypeVarChar, PrimaryKey = True, AutoID = False,
          TypeParams = [TypeParamMaxLength \<mapsto> Sprintf_d 255]\<rparr>,
         \<lparr>Name = ''title'', DataType = FieldTypeVarChar, PrimaryKey = False, AutoID = False,
          TypeParams = [TypeParamMaxLength \<mapsto> Sprintf_d 255]\<rparr>,
         \<lparr>Name = ''content'', DataType = FieldTypeVarChar, PrimaryKey = False, AutoID = False,
          TypeParams = [TypeParamMaxLength \<mapsto> Sprintf_d 3000]\<rparr>,
         \<lparr>Name = ''category'', DataType = FieldTypeVarChar, PrimaryKey = False, AutoID = False,
          TypeParams = [TypeParamMaxLength \<mapsto> Sprintf_d 100]\<rparr>,
         \<lparr>Name = ''embedding'', DataType = FieldTypeFloatVector, PrimaryKey = False,
          AutoID = False,
          TypeParams = [TypeParamDim \<mapsto> Sprintf_d 4096]\<rparr>]\<rparr>"

subsection \<open>Collection management\<close>

definition buildIndex ::
  "entity \<Rightarrow> ('f, 'b) DatastoreMilvusRepository \<Rightarrow> string \<Rightarrow> ('f, 'b) world
     \<Rightarrow> error option \<times> ('f, 'b) world" where
  "buildIndex ent m collectionName w =
     (case NewIndexIvfFlat ent COSINE 1024 of
        (idx, Some err) \<Rightarrow> (Some (Errorf ''fail to create IVF flat index parameter'' err), w)
      | (idx, None) \<Rightarrow>
          (case issue (CreateIndexCall collectionName ''embedding'' idx False)
                  (Client_CreateIndex (Client m) collectionName ''embedding'' idx False) w of
             (Some err, w') \<Rightarrow> (Some (Errorf ''fail to create index'' err), w')
           | (None, w') \<Rightarrow> (None, w')))"

definition CreateCollection ::
  "entity \<Rightarrow> ('f, 'b) DatastoreMilvusRepository \<Rightarrow> string \<Rightarrow> ('f, 'b) world
     \<Rightarrow> error option \<times> ('f, 'b) world" where
  "CreateCollection ent m collectionName w =
     (let schema = defineSchema collectionName in
      case issue (CreateCollectionCall schema DefaultShardNumber)
             (Client_CreateCollection (Client m) schema DefaultShardNumber) w of
        (Some err, w') \<Rightarrow> (Some (Errorf ''failed to create collection'' err), w')
      | (None, w') \<Rightarrow>
          (case buildIndex ent m collectionName w' of
             (Some err, w'') \<Rightarrow> (Some (Errorf ''failed to build index'' err), w'')
           | (None, w'') \<Rightarrow> (None, w'')))"

definition DeleteCollection ::
  "('f, 'b) DatastoreMilvusRepository \<Rightarrow> string \<Rightarrow> ('f, 'b) world
     \<Rightarrow> error option \<times> ('f, 'b) world" where
  "DeleteCollection m collectionName w =
     (case issue (DropCollectionCall collectionName)
             (Client_DropCollection (Client m) collectionName) w of
        (Some err, w') \<Rightarrow> (Some (Errorf ''failed to drop collection'' err), w')
      | (None, w') \<Rightarrow> (None, w'))"

definition List ::
  "('f, 'b) DatastoreMilvusRepository \<Rightarrow> ('f, 'b) world
     \<Rightarrow> (string list \<times> error option) \<times> ('f, 'b) world" where
  "List m w =
     (case issue ListCollectionsCall (Client_ListCollections (Client m)) w of
        ((listColl, Some err), w') \<Rightarrow> (([], Some (Errorf ''failed to list collections'' err)), w')
      | ((listColl, None), w') \<Rightarrow> ((map CollName listColl, None), w'))"

subsection \<open>Writing documents\<close>

text \<open>
  The loop of \<^verbatim>\<open>UpsertDocuments\<close> over the batch, with the five lists it appends to as
  its state. An encoding error leaves the function at once.
\<close>

type_synonym 'f lists =
  "string list \<times> string list \<times> string list \<times> string list \<times> 'f list list"

fun upsert_loop :: "'f TextEncoder \<Rightarrow> Document list \<Rightarrow> 'f lists \<Rightarrow> error + 'f lists" where
  "upsert_loop enc [] acc = Inr acc"
| "upsert_loop enc (document # rest) (idList, titleList, contentList, categoryList, embeddingList) =
     (case Encode enc (Content document) of
        (encodedContent, Some err) \<Rightarrow> Inl (Errorf ''fail to encode content'' err)
      | (encodedContent, None) \<Rightarrow>
          upsert_loop enc rest
            (idList @ [ID document],
             titleList @ [Title document],
             contentList @ [Content document],
             categoryList @ [Category document],
             embeddingList @ [encodedContent]))"

definition UpsertDocuments ::
  "('f, 'b) DatastoreMilvusRepository \<Rightarrow> string \<Rightarrow> Document list \<Rightarrow> ('f, 'b) world
     \<Rightarrow> error option \<times> ('f, 'b) world" where
  "UpsertDocuments m collectionName documents w =
     (case upsert_loop (Encoder m) documents ([], [], [], [], []) of
        Inl err \<Rightarrow> (Some err, w)
      | Inr (idList, titleList, contentList, categoryList, embeddingList) \<Rightarrow>
          (let idColumn = ColumnVarChar ''id'' idList;
               titleColumn = ColumnVarChar ''title'' titleList;
               contentColumn = ColumnVarChar ''content'' contentList;
               categoryColumn = ColumnVarChar ''category'' categoryList;
               embeddingColumn = ColumnFloatVector ''embedding'' 4096 embeddingList;
               columns = [idColumn, titleColumn, contentColumn, categoryColumn, embeddingColumn]
           in case issue (UpsertCall collectionName '''' columns)
                     (Client_Upsert (Client m) collectionName '''' columns) w of
                ((ids, Some err), w') \<Rightarrow> (Some (Errorf ''fail to upsert data, err'' err), w')
              | ((ids, None), w') \<Rightarrow> (None, w')))"

subsection \<open>Search\<close>

text \<open>The option function that \<^verbatim>\<open>Search\<close> passes to the client.\<close>

definition opt :: "SearchQueryOption \<Rightarrow> SearchQueryOption" where
  "opt option = option\<lparr>Limit := 3, Offset := 0, ConsistencyLevel := ClStrong,
     IgnoreGrowing := False\<rparr>"

text \<open>
  The decoding loop. Calling a method on a \<^verbatim>\<open>nil\<close> column panics; the errors of
  \<^verbatim>\<open>GetAsString\<close> are assigned to the blank identifier.
\<close>

function decode_loop ::
  "ResultColumn option \<Rightarrow> ResultColumn option \<Rightarrow> ResultColumn option \<Rightarrow> int
     \<Rightarrow> Document list \<Rightarrow> panic + Document list" where
  "decode_loop titleList contentList categoryList i documents =
     (case titleList of
        None \<Rightarrow> Inl NilDereference
      | Some tcol \<Rightarrow>
          if i < Len tcol then
            (case contentList of
               None \<Rightarrow> Inl NilDereference
             | Some ccol \<Rightarrow>
                 (case categoryList of
                    None \<Rightarrow> Inl NilDereference
                  | Some gcol \<Rightarrow>
                      decode_loop titleList contentList categoryList (i + 1)
                        (documents @
                          [\<lparr>ID = '''',
                            Title = fst (GetAsString tcol i),
                            Content = fst (GetAsString ccol i),
                            Category = fst (GetAsString gcol i)\<rparr>])))
          else Inr documents)"
  by pat_completeness auto
termination
  by (relation "measure (\<lambda>(titleList, contentList, categoryList, i, documents).
        case titleList of None \<Rightarrow> 0 | Some tcol \<Rightarrow> nat (Len tcol - i))") auto

definition Search ::
  "entity \<Rightarrow> ('f, 'b) DatastoreMilvusRepository \<Rightarrow> string \<Rightarrow> string \<Rightarrow> ('f, 'b) world
     \<Rightarrow> (panic + Document list \<times> error option) \<times> ('f, 'b) world" where
  "Search ent m collectionName query w =
     (case Encode (Encoder m) query of
        (encodedQuery, Some err) \<Rightarrow> (Inr ([], Some (Errorf ''fail to encode query'' err)), w)
      | (encodedQuery, None) \<Rightarrow>
     (case issue (LoadCollectionCall collectionName False)
             (Client_LoadCollection (Client m) collectionName False) w of
        (Some err, w1) \<Rightarrow> (Inr ([], Some (Errorf ''failed to load collection'' err)), w1)
      | (None, w1) \<Rightarrow>
     (let sp = fst (NewIndexIvfFlatSearchParam ent 10) in
      case issue
             (SearchCall collectionName [] '''' [''title'', ''content'', ''category'']
                [FloatVector encodedQuery] ''embedding'' COSINE 10 sp [opt])
             (Client_Search (Client m) collectionName [] '''' [''title'', ''content'', ''category'']
                [FloatVector encodedQuery] ''embedding'' COSINE 10 sp [opt]) w1 of
        ((searchResult, Some err), w2) \<Rightarrow>
          (Inr ([], Some (Errorf ''fail to search collection'' err)), w2)
      | ((searchResult, None), w2) \<Rightarrow>
     (case searchResult of
        [] \<Rightarrow> (Inl IndexOutOfRange, w2)
      | first # others \<Rightarrow>
     (let fields = first;
          titleList = GetColumn fields ''title'';
          contentList = GetColumn fields ''content'';
          categoryList = GetColumn fields ''category''
      in case decode_loop titleList contentList categoryList 0 [] of
           Inl p \<Rightarrow> (Inl p, w2)
         | Inr documents \<Rightarrow>
     (case issue (ReleaseCollectionCall collectionName)
             (Client_ReleaseCollection (Client m) collectionName) w2 of
        (Some err, w3) \<Rightarrow> (Inr ([], Some (Errorf ''failed to release collection'' err)), w3)
      | (None, w3) \<Rightarrow> (Inr (documents, None), w3)))))))"

subsection \<open>Reading the model\<close>

text \<open>
  The client applies the option functions of a search call, in order, to the option
  record it starts from.
\<close>

definition configure ::
  "(SearchQueryOption \<Rightarrow> SearchQueryOption) list \<Rightarrow> SearchQueryOption \<Rightarrow> SearchQueryOption" where
  "configure opts base = fold (\<lambda>f option. f option) opts base"

text \<open>The calls an operation added to the log.\<close>

definition issued :: "('f, 'b) world \<Rightarrow> ('f, 'b) world \<Rightarrow> 'f call list" where
  "issued w w' = drop (length (calls w)) (calls w')"

text \<open>The document the decoding loop builds at position \<open>i\<close>.\<close>

definition decoded :: "ResultColumn \<Rightarrow> ResultColumn \<Rightarrow> ResultColumn \<Rightarrow> int \<Rightarrow> Document" where
  "decoded tcol ccol gcol i =
     \<lparr>ID = '''',
      Title = fst (GetAsString tcol i),
      Content = fst (GetAsString ccol i),
      Category = fst (GetAsString gcol i)\<rparr>"

text \<open>
  The search call that \<open>Search\<close> issues for the encoded query \<open>v\<close>, and what the client
  answers to it in the backend state \<open>b\<close>.
\<close>

definition search_request :: "entity \<Rightarrow> string \<Rightarrow> 'f list \<Rightarrow> 'f call" where
  "search_request ent collectionName v =
     SearchCall collectionName [] '''' [''title'', ''content'', ''category'']
       [FloatVector v] ''embedding'' COSINE 10 (fst (NewIndexIvfFlatSearchParam ent 10)) [opt]"

definition search_response ::
  "entity \<Rightarrow> ('f, 'b) DatastoreMilvusRepository \<Rightarrow> string \<Rightarrow> 'f list \<Rightarrow> 'b
     \<Rightarrow> (SearchResult list \<times> error option) \<times> 'b" where
  "search_response ent m collectionName v b =
     Client_Search (Client m) collectionName [] '''' [''title'', ''content'', ''category'']
       [FloatVector v] ''embedding'' COSINE 10 (fst (NewIndexIvfFlatSearchParam ent 10)) [opt] b"

subsection \<open>A scripted backend and encoder, for concrete runs\<close>

datatype fault =
    NoFault | CreateFails | IndexParamFails | IndexFails | UpsertFails | LoadFails
  | SearchFails | NoResultSet | NoContentColumn | CellsFail | ReleaseFails

definition fake_entity :: "fault \<Rightarrow> entity" where
  "fake_entity flt =
     \<lparr>NewIndexIvfFlat = (\<lambda>metric nlist.
        if flt = IndexParamFails then (None, Some (Error ''nlist out of range''))
        else (Some (IndexIvfFlat metric nlist), None)),
      NewIndexIvfFlatSearchParam = (\<lambda>nprobe. (Some (IndexIvfFlatSearchParam nprobe), None))\<rparr>"

definition fake_encoder :: "int TextEncoder" where
  "fake_encoder =
     \<lparr>Encode = (\<lambda>text.
        if text = ''bad'' then ([], Some (Error ''encoder down''))
        else ([int (length text)], None))\<rparr>"

definition fake_column :: "fault \<Rightarrow> string list \<Rightarrow> ResultColumn" where
  "fake_column flt cells =
     \<lparr>Len = int (length cells),
      GetAsString = (\<lambda>i.
        if flt = CellsFail then ('''', Some (Error ''not supported''))
        else if 0 \<le> i \<and> i < int (length cells) then (cells ! nat i, None)
        else ('''', Some (Error ''index out of range'')))\<rparr>"

definition fake_result :: "fault \<Rightarrow> SearchResult" where
  "fake_result flt =
     \<lparr>GetColumn = (\<lambda>name.
        if name = ''title'' then Some (fake_column flt [''T0'', ''T1''])
        else if name = ''content'' \<and> flt \<noteq> NoContentColumn
          then Some (fake_column flt [''C0'', ''C1''])
        else if name = ''category'' then Some (fake_column flt [''G0'', ''G1''])
        else None)\<rparr>"

definition refuse :: "bool \<Rightarrow> string \<Rightarrow> error option" where
  "refuse b msg = (if b then Some (Error msg) else None)"

definition fake_client :: "fault \<Rightarrow> (int, nat) Client" where
  "fake_client flt =
     \<lparr>Client_CreateCollection = (\<lambda>schema shards b.
        (refuse (flt = CreateFails) ''create refused'', Suc b)),
      Client_DropCollection = (\<lambda>name b. (None, Suc b)),
      Client_ListCollections = (\<lambda>b. (([Collection ''docs''], None), Suc b)),
      Client_CreateIndex = (\<lambda>name field idx async b.
        (refuse (flt = IndexFails) ''index refused'', Suc b)),
      Client_Upsert = (\<lambda>name partition columns b.
        ((None, refuse (flt = UpsertFails) ''upsert refused''), Suc b)),
      Client_LoadCollection = (\<lambda>name async b.
        (refuse (flt = LoadFails) ''load refused'', Suc b)),
      Client_Search = (\<lambda>name partitions expr outputFields vectors field metric topK sp opts b.
        (if flt = SearchFails then ([], Some (Error ''search refused''))
         else if flt = NoResultSet then ([], None)
         else ([fake_result flt], None), Suc b)),
      Client_ReleaseCollection = (\<lambda>name b.
        (refuse (flt = ReleaseFails) ''release refused'', Suc b))\<rparr>"

definition fake_repo :: "fault \<Rightarrow> (int, nat) DatastoreMilvusRepository" where
  "fake_repo flt = \<lparr>Client = fake_client flt, Encoder = fake_encoder\<rparr>"

definition world0 :: "(int, nat) world" where
  "world0 = \<lparr>calls = [], backend = 0\<rparr>"

definition doc_a :: Document where
  "doc_a = \<lparr>ID = ''a'', Title = ''Alpha'', Content = ''first text'', Category = ''x''\<rparr>"

definition doc_b :: Document where
  "doc_b = \<lparr>ID = ''b'', Title = ''Beta'', Content = ''bad'', Category = ''y''\<rparr>"

definition doc_c :: Document where
  "doc_c = \<lparr>ID = ''c'', Title = ''Gamma'', Content = ''bad'', Category = ''z''\<rparr>"

section \<open>Properties\<close>

subsection \<open>The schema\<close>

lemma Sprintf_d_255: "Sprintf_d 255 = ''255''"
  by code_simp

lemma Sprintf_d_3000: "Sprintf_d 3000 = ''3000''"
  by code_simp

lemma Sprintf_d_100: "Sprintf_d 100 = ''100''"
  by code_simp

lemma Sprintf_d_4096: "Sprintf_d 4096 = ''4096''"
  by code_simp

text \<open>
  C6. For every collection name, \<open>defineSchema\<close> (a function of the name alone) gives a
  schema of that name with exactly five fields: \<open>id\<close> (varchar, maximal length 255, primary
  key, no automatic identifiers), \<open>title\<close> (varchar, 255), \<open>content\<close> (varchar, 3000),
  \<open>category\<close> (varchar, 100) and \<open>embedding\<close> (float vector of dimension 4096). The fields
  marked as primary key are \<open>id\<close> and no other.
\<close>

theorem defineSchema_five_fields:
  "Fields (defineSchema name) =
     [\<lparr>Name = ''id'', DataType = FieldTypeVarChar, PrimaryKey = True, AutoID = False,
       TypeParams = [TypeParamMaxLength \<mapsto> ''255'']\<rparr>,
      \<lparr>Name = ''title'', DataType = FieldTypeVarChar, PrimaryKey = False, AutoID = False,
       TypeParams = [TypeParamMaxLength \<mapsto> ''255'']\<rparr>,
      \<lparr>Name = ''content'', DataType = FieldTypeVarChar, PrimaryKey = False, AutoID = False,
       TypeParams = [TypeParamMaxLength \<mapsto> ''3000'']\<rparr>,
      \<lparr>Name = ''category'', DataType = FieldTypeVarChar, PrimaryKey = False, AutoID = False,
       TypeParams = [TypeParamMaxLength \<mapsto> ''100'']\<rparr>,
      \<lparr>Name = ''embedding'', DataType = FieldTypeFloatVector, PrimaryKey = False,
       AutoID = False, TypeParams = [TypeParamDim \<mapsto> ''4096'']\<rparr>]
   \<and> length (Fields (defineSchema name)) = 5
   \<and> map Name (filter PrimaryKey (Fields (defineSchema name))) = [''id'']
   \<and> CollectionName (defineSchema name) = name
   \<and> SchemaAutoID (defineSchema name) = False"
  by (simp add: defineSchema_def Sprintf_d_255 Sprintf_d_3000 Sprintf_d_100 Sprintf_d_4096)

subsection \<open>Writing documents\<close>

lemma upsert_loop_ok:
  "\<forall>d\<in>set docs. snd (Encode enc (Content d)) = None \<Longrightarrow>
   upsert_loop enc docs (a, b, c, d, e) =
     Inr (a @ map ID docs, b @ map Title docs, c @ map Content docs, d @ map Category docs,
          e @ map (\<lambda>x. fst (Encode enc (Content x))) docs)"
proof (induction docs arbitrary: a b c d e)
  case Nil
  show ?case by simp
next
  case (Cons x xs)
  obtain v where v: "Encode enc (Content x) = (v, None)"
    using Cons.prems by (cases "Encode enc (Content x)") auto
  have "\<forall>d\<in>set xs. snd (Encode enc (Content d)) = None"
    using Cons.prems by simp
  from Cons.IH [OF this] show ?case
    by (simp add: v)
qed

lemma upsert_loop_fail:
  "\<forall>x\<in>set ds1. snd (Encode enc (Content x)) = None \<Longrightarrow>
   snd (Encode enc (Content d)) = Some err \<Longrightarrow>
   upsert_loop enc (ds1 @ d # ds2) acc = Inl (Errorf ''fail to encode content'' err)"
proof (induction ds1 arbitrary: acc)
  case Nil
  obtain a b c d' e where acc: "acc = (a, b, c, d', e)"
    by (cases acc) auto
  obtain v where "Encode enc (Content d) = (v, Some err)"
    using Nil.prems(2) by (cases "Encode enc (Content d)") auto
  then show ?case by (simp add: acc)
next
  case (Cons x xs)
  obtain a b c d' e where acc: "acc = (a, b, c, d', e)"
    by (cases acc) auto
  obtain v where v: "Encode enc (Content x) = (v, None)"
    using Cons.prems(1) by (cases "Encode enc (Content x)") auto
  have "\<forall>x\<in>set xs. snd (Encode enc (Content x)) = None"
    using Cons.prems(1) by simp
  from Cons.IH [OF this Cons.prems(2)] show ?case
    by (simp add: acc v)
qed

text \<open>
  C3 (as amended). If encoding the content of any document of the batch fails, then
  \<open>UpsertDocuments\<close> returns the error of the first document whose encoding fails, wrapped
  with the message \<open>fail to encode content\<close>, and it leaves the world as it was: no call
  is issued to the client for any document of the batch. The error is built from the
  encoder's error alone and carries nothing that identifies the document.
\<close>

theorem UpsertDocuments_encode_failure:
  assumes "\<exists>d\<in>set documents. snd (Encode (Encoder m) (Content d)) \<noteq> None"
  shows "\<exists>before d after err.
           documents = before @ d # after
         \<and> (\<forall>x\<in>set before. snd (Encode (Encoder m) (Content x)) = None)
         \<and> snd (Encode (Encoder m) (Content d)) = Some err
         \<and> UpsertDocuments m collectionName documents w =
             (Some (Errorf ''fail to encode content'' err), w)
         \<and> issued w (snd (UpsertDocuments m collectionName documents w)) = []"
proof -
  from assms obtain before d after
    where split: "documents = before @ d # after"
      and d: "snd (Encode (Encoder m) (Content d)) \<noteq> None"
      and before: "\<forall>x\<in>set before. \<not> snd (Encode (Encoder m) (Content x)) \<noteq> None"
    using split_list_first_prop [of documents "\<lambda>d. snd (Encode (Encoder m) (Content d)) \<noteq> None"]
    by blast
  from d obtain err where err: "snd (Encode (Encoder m) (Content d)) = Some err"
    by auto
  from before have ok: "\<forall>x\<in>set before. snd (Encode (Encoder m) (Content x)) = None"
    by simp
  have loop: "upsert_loop (Encoder m) documents ([], [], [], [], []) =
      Inl (Errorf ''fail to encode content'' err)"
    unfolding split by (rule upsert_loop_fail [OF ok err])
  have res: "UpsertDocuments m collectionName documents w =
      (Some (Errorf ''fail to encode content'' err), w)"
    by (simp add: UpsertDocuments_def loop)
  have "issued w (snd (UpsertDocuments m collectionName documents w)) = []"
    by (simp add: res issued_def)
  with split ok err res show ?thesis by blast
qed

text \<open>
  A run of the scripted repository: the second of three documents fails to encode.
\<close>

theorem UpsertDocuments_encode_failure_witness:
  "[doc_a, doc_b, doc_a] = [doc_a] @ doc_b # [doc_a]
   \<and> snd (Encode fake_encoder (Content doc_a)) = None
   \<and> snd (Encode fake_encoder (Content doc_b)) = Some (Error ''encoder down'')
   \<and> UpsertDocuments (fake_repo NoFault) ''docs'' [doc_a, doc_b, doc_a] world0 =
       (Some (Errorf ''fail to encode content'' (Error ''encoder down'')), world0)
   \<and> issued world0 (snd (UpsertDocuments (fake_repo NoFault) ''docs'' [doc_a, doc_b, doc_a] world0)) = []"
proof -
  have h: "\<exists>d\<in>set [doc_a, doc_b, doc_a].
      snd (Encode (Encoder (fake_repo NoFault)) (Content d)) \<noteq> None"
    by (simp add: fake_repo_def fake_encoder_def doc_b_def)
  have a: "snd (Encode fake_encoder (Content doc_a)) = None"
    by (simp add: fake_encoder_def doc_a_def)
  have b: "snd (Encode fake_encoder (Content doc_b)) = Some (Error ''encoder down'')"
    by (simp add: fake_encoder_def doc_b_def)
  from UpsertDocuments_encode_failure [OF h, of "''docs''" world0]
  obtain before d after err where
    split: "[doc_a, doc_b, doc_a] = before @ d # after"
    and e: "snd (Encode (Encoder (fake_repo NoFault)) (Content d)) = Some err"
    and r: "UpsertDocuments (fake_repo NoFault) ''docs'' [doc_a, doc_b, doc_a] world0 =
             (Some (Errorf ''fail to encode content'' err), world0)"
    and i: "issued world0 (snd (UpsertDocuments (fake_repo NoFault) ''docs'' [doc_a, doc_b, doc_a] world0)) = []"
    by blast
  have "d \<in> set (before @ d # after)"
    by simp
  then have "d \<in> set [doc_a, doc_b, doc_a]"
    by (simp only: split)
  then have "d = doc_a \<or> d = doc_b"
    by auto
  with e a b have "err = Error ''encoder down''"
    by (auto simp: fake_repo_def)
  with r i a b show ?thesis by simp
qed

text \<open>
  The error does not name the failing document: two batches whose failing documents
  differ in identifier, title and category return the same error.
\<close>

theorem UpsertDocuments_error_names_no_document:
  "fst (UpsertDocuments (fake_repo NoFault) ''docs'' [doc_a, doc_b] world0) =
     Some (Errorf ''fail to encode content'' (Error ''encoder down''))
   \<and> fst (UpsertDocuments (fake_repo NoFault) ''docs'' [doc_c] world0) =
     Some (Errorf ''fail to encode content'' (Error ''encoder down''))
   \<and> ID doc_b \<noteq> ID doc_c \<and> Title doc_b \<noteq> Title doc_c \<and> Category doc_b \<noteq> Category doc_c"
  by (simp add: UpsertDocuments_def fake_repo_def fake_encoder_def doc_a_def doc_b_def doc_c_def)

text \<open>
  C4. If the contents of all \<open>N\<close> documents of the batch encode, then \<open>UpsertDocuments\<close>
  issues exactly one client call, an upsert of five columns (\<open>id\<close>, \<open>title\<close>,
  \<open>content\<close>, \<open>category\<close>, \<open>embedding\<close>), each of length \<open>N\<close>, whose element \<open>i\<close> is
  taken from document \<open>i\<close> of the batch (the embedding being the encoding of its content).
\<close>

theorem UpsertDocuments_one_request:
  assumes "\<forall>d\<in>set documents. snd (Encode (Encoder m) (Content d)) = None"
  shows "\<exists>idList titleList contentList categoryList embeddingList.
           issued w (snd (UpsertDocuments m collectionName documents w)) =
             [UpsertCall collectionName ''''
                [ColumnVarChar ''id'' idList,
                 ColumnVarChar ''title'' titleList,
                 ColumnVarChar ''content'' contentList,
                 ColumnVarChar ''category'' categoryList,
                 ColumnFloatVector ''embedding'' 4096 embeddingList]]
         \<and> length idList = length documents
         \<and> length titleList = length documents
         \<and> length contentList = length documents
         \<and> length categoryList = length documents
         \<and> length embeddingList = length documents
         \<and> (\<forall>i<length documents.
               idList ! i = ID (documents ! i)
             \<and> titleList ! i = Title (documents ! i)
             \<and> contentList ! i = Content (documents ! i)
             \<and> categoryList ! i = Category (documents ! i)
             \<and> embeddingList ! i = fst (Encode (Encoder m) (Content (documents ! i))))"
proof -
  let ?emb = "map (\<lambda>x. fst (Encode (Encoder m) (Content x))) documents"
  have loop: "upsert_loop (Encoder m) documents ([], [], [], [], []) =
      Inr (map ID documents, map Title documents, map Content documents,
           map Category documents, ?emb)"
    using upsert_loop_ok [OF assms, of "[]" "[]" "[]" "[]" "[]"] by simp
  have "issued w (snd (UpsertDocuments m collectionName documents w)) =
      [UpsertCall collectionName ''''
         [ColumnVarChar ''id'' (map ID documents),
          ColumnVarChar ''title'' (map Title documents),
          ColumnVarChar ''content'' (map Content documents),
          ColumnVarChar ''category'' (map Category documents),
          ColumnFloatVector ''embedding'' 4096 ?emb]]"
    by (simp add: UpsertDocuments_def loop issue_def issued_def Let_def
          split: prod.splits option.splits)
  then show ?thesis
    by (intro exI [of _ "map ID documents"] exI [of _ "map Title documents"]
          exI [of _ "map Content documents"] exI [of _ "map Category documents"]
          exI [of _ ?emb]) simp
qed

text \<open>
  A run of the scripted repository on a batch of two documents.
\<close>

theorem UpsertDocuments_one_request_witness:
  "issued world0 (snd (UpsertDocuments (fake_repo NoFault) ''docs'' [doc_a, doc_a] world0)) =
     [UpsertCall ''docs'' ''''
        [ColumnVarChar ''id'' [''a'', ''a''],
         ColumnVarChar ''title'' [''Alpha'', ''Alpha''],
         ColumnVarChar ''content'' [''first text'', ''first text''],
         ColumnVarChar ''category'' [''x'', ''x''],
         ColumnFloatVector ''embedding'' 4096 [[10], [10]]]]"
proof -
  have h: "\<forall>d\<in>set [doc_a, doc_a].
      snd (Encode (Encoder (fake_repo NoFault)) (Content d)) = None"
    by (simp add: fake_repo_def fake_encoder_def doc_a_def)
  from UpsertDocuments_one_request [OF h, of world0 "''docs''"]
  obtain idList titleList contentList categoryList embeddingList where
    c: "issued world0 (snd (UpsertDocuments (fake_repo NoFault) ''docs'' [doc_a, doc_a] world0)) =
             [UpsertCall ''docs'' ''''
                [ColumnVarChar ''id'' idList,
                 ColumnVarChar ''title'' titleList,
                 ColumnVarChar ''content'' contentList,
                 ColumnVarChar ''category'' categoryList,
                 ColumnFloatVector ''embedding'' 4096 embeddingList]]"
    and l: "length idList = 2" "length titleList = 2" "length contentList = 2"
       "length categoryList = 2" "length embeddingList = 2"
    and n: "\<forall>i<2. idList ! i = ID ([doc_a, doc_a] ! i)
             \<and> titleList ! i = Title ([doc_a, doc_a] ! i)
             \<and> contentList ! i = Content ([doc_a, doc_a] ! i)
             \<and> categoryList ! i = Category ([doc_a, doc_a] ! i)
             \<and> embeddingList ! i = fst (Encode (Encoder (fake_repo NoFault)) (Content ([doc_a, doc_a] ! i)))"
    by auto
  have two: "\<And>xs ys::'a list. length xs = 2 \<Longrightarrow> xs = [xs ! 0, xs ! 1]"
    by (metis One_nat_def Suc_1 length_0_conv length_Suc_conv nth_Cons_0 nth_Cons_Suc)
  from n have n0: "idList ! 0 = ''a''" "titleList ! 0 = ''Alpha''" "contentList ! 0 = ''first text''"
      "categoryList ! 0 = ''x''" "embeddingList ! 0 = [10]"
    by (simp_all add: doc_a_def fake_repo_def fake_encoder_def)
  from n have n1: "idList ! 1 = ''a''" "titleList ! 1 = ''Alpha''" "contentList ! 1 = ''first text''"
      "categoryList ! 1 = ''x''" "embeddingList ! 1 = [10]"
    by (simp_all add: doc_a_def fake_repo_def fake_encoder_def)
  have "idList = [''a'', ''a'']" "titleList = [''Alpha'', ''Alpha'']"
    "contentList = [''first text'', ''first text'']" "categoryList = [''x'', ''x'']"
    "embeddingList = [[10], [10]]"
    using two [OF l(1)] two [OF l(2)] two [OF l(3)] two [OF l(4)] two [OF l(5)] n0 n1
    by simp_all
  with c show ?thesis by simp
qed

subsection \<open>Search\<close>

lemma decode_loop_panic:
  "decode_loop T C G i docs = Inl p \<Longrightarrow> p = NilDereference"
proof (induction T C G i docs rule: decode_loop.induct)
  case (1 T C G i docs)
  show ?case
  proof (cases T)
    case None
    with "1.prems" show ?thesis by simp
  next
    case (Some tcol)
    show ?thesis
    proof (cases "i < Len tcol")
      case False
      with Some "1.prems" show ?thesis by simp
    next
      case lt: True
      show ?thesis
      proof (cases C)
        case None
        with Some lt "1.prems" show ?thesis by simp
      next
        case C: (Some ccol)
        show ?thesis
        proof (cases G)
          case None
          with Some lt C "1.prems" show ?thesis by simp
        next
          case G: (Some gcol)
          from "1.prems" Some lt C G
          have "decode_loop T C G (i + 1) (docs @ [decoded tcol ccol gcol i]) = Inl p"
            by (simp add: decoded_def)
          with "1.IH" [OF Some lt C G] Some C G show ?thesis
            by (simp add: decoded_def)
        qed
      qed
    qed
  qed
qed

lemma decode_loop_Inr:
  "decode_loop T C G i docs = Inr out \<Longrightarrow>
   \<exists>tcol new. T = Some tcol \<and> out = docs @ new \<and> length new = nat (Len tcol - i)
     \<and> (\<forall>k<length new. \<exists>ccol gcol. C = Some ccol \<and> G = Some gcol
           \<and> new ! k = decoded tcol ccol gcol (i + int k))"
proof (induction T C G i docs arbitrary: out rule: decode_loop.induct)
  case (1 T C G i docs)
  show ?case
  proof (cases T)
    case None
    with "1.prems" show ?thesis by simp
  next
    case (Some tcol)
    show ?thesis
    proof (cases "i < Len tcol")
      case False
      with Some "1.prems" have "out = docs" by simp
      with Some False show ?thesis by simp
    next
      case lt: True
      show ?thesis
      proof (cases C)
        case None
        with Some lt "1.prems" show ?thesis by simp
      next
        case C: (Some ccol)
        show ?thesis
        proof (cases G)
          case None
          with Some lt C "1.prems" show ?thesis by simp
        next
          case G: (Some gcol)
          let ?d = "decoded tcol ccol gcol i"
          from "1.prems" Some lt C G
          have "decode_loop T C G (i + 1) (docs @ [?d]) = Inr out"
            by (simp add: decoded_def)
          from "1.IH" [OF Some lt C G, unfolded decoded_def [symmetric], OF this]
          obtain new where out: "out = (docs @ [?d]) @ new"
            and len: "length new = nat (Len tcol - (i + 1))"
            and nth: "\<forall>k<length new. new ! k = decoded tcol ccol gcol (i + 1 + int k)"
            using Some C G by auto
          have l: "length (?d # new) = nat (Len tcol - i)"
            using len lt by simp
          have n: "(?d # new) ! k = decoded tcol ccol gcol (i + int k)"
            if "k < length (?d # new)" for k
          proof (cases k)
            case 0
            then show ?thesis by simp
          next
            case (Suc j)
            with that nth have "new ! j = decoded tcol ccol gcol (i + 1 + int j)"
              by simp
            with Suc show ?thesis by (simp add: algebra_simps)
          qed
          have "out = docs @ (?d # new)"
            using out by simp
          with l n Some C G show ?thesis
            by blast
        qed
      qed
    qed
  qed
qed

lemma decode_loop_present:
  "decode_loop (Some tcol) (Some ccol) (Some gcol) i docs =
     Inr (docs @ map (decoded tcol ccol gcol) [i..Len tcol - 1])"
proof (induction "Some tcol" "Some ccol" "Some gcol" i docs rule: decode_loop.induct)
  case (1 i docs)
  show ?case
  proof (cases "i < Len tcol")
    case False
    then show ?thesis by simp
  next
    case True
    then have "[i..Len tcol - 1] = i # [i + 1..Len tcol - 1]"
      by (simp add: upto_rec1)
    with "1.hyps" [OF refl True refl refl] True show ?thesis
      by (simp add: decoded_def)
  qed
qed


lemma Search_encode_fails:
  "Encode (Encoder m) query = (v, Some err) \<Longrightarrow>
   Search ent m c query w = (Inr ([], Some (Errorf ''fail to encode query'' err)), w)"
  by (simp add: Search_def)

lemma Search_load_fails:
  "Encode (Encoder m) query = (v, None) \<Longrightarrow>
   Client_LoadCollection (Client m) c False (backend w) = (Some err, b1) \<Longrightarrow>
   Search ent m c query w =
     (Inr ([], Some (Errorf ''failed to load collection'' err)),
      \<lparr>calls = calls w @ [LoadCollectionCall c False], backend = b1\<rparr>)"
  by (simp add: Search_def issue_def)

lemma Search_search_fails:
  "Encode (Encoder m) query = (v, None) \<Longrightarrow>
   Client_LoadCollection (Client m) c False (backend w) = (None, b1) \<Longrightarrow>
   search_response ent m c v b1 = ((rs, Some err), b2) \<Longrightarrow>
   Search ent m c query w =
     (Inr ([], Some (Errorf ''fail to search collection'' err)),
      \<lparr>calls = calls w @ [LoadCollectionCall c False, search_request ent c v],
       backend = b2\<rparr>)"
  by (simp add: Search_def issue_def search_response_def search_request_def)

lemma Search_no_result_set:
  "Encode (Encoder m) query = (v, None) \<Longrightarrow>
   Client_LoadCollection (Client m) c False (backend w) = (None, b1) \<Longrightarrow>
   search_response ent m c v b1 = (([], None), b2) \<Longrightarrow>
   Search ent m c query w =
     (Inl IndexOutOfRange,
      \<lparr>calls = calls w @ [LoadCollectionCall c False, search_request ent c v],
       backend = b2\<rparr>)"
  by (simp add: Search_def issue_def search_response_def search_request_def)

lemma Search_decode_panics:
  "Encode (Encoder m) query = (v, None) \<Longrightarrow>
   Client_LoadCollection (Client m) c False (backend w) = (None, b1) \<Longrightarrow>
   search_response ent m c v b1 = ((first # others, None), b2) \<Longrightarrow>
   decode_loop (GetColumn first ''title'') (GetColumn first ''content'')
     (GetColumn first ''category'') 0 [] = Inl p \<Longrightarrow>
   Search ent m c query w =
     (Inl p,
      \<lparr>calls = calls w @ [LoadCollectionCall c False, search_request ent c v],
       backend = b2\<rparr>)"
  by (simp add: Search_def issue_def search_response_def search_request_def)

lemma Search_release_fails:
  "Encode (Encoder m) query = (v, None) \<Longrightarrow>
   Client_LoadCollection (Client m) c False (backend w) = (None, b1) \<Longrightarrow>
   search_response ent m c v b1 = ((first # others, None), b2) \<Longrightarrow>
   decode_loop (GetColumn first ''title'') (GetColumn first ''content'')
     (GetColumn first ''category'') 0 [] = Inr documents \<Longrightarrow>
   Client_ReleaseCollection (Client m) c b2 = (Some err, b3) \<Longrightarrow>
   Search ent m c query w =
     (Inr ([], Some (Errorf ''failed to release collection'' err)),
      \<lparr>calls = calls w @ [LoadCollectionCall c False, search_request ent c v,
         ReleaseCollectionCall c],
       backend = b3\<rparr>)"
  by (simp add: Search_def issue_def search_response_def search_request_def)

lemma Search_succeeds:
  "Encode (Encoder m) query = (v, None) \<Longrightarrow>
   Client_LoadCollection (Client m) c False (backend w) = (None, b1) \<Longrightarrow>
   search_response ent m c v b1 = ((first # others, None), b2) \<Longrightarrow>
   decode_loop (GetColumn first ''title'') (GetColumn first ''content'')
     (GetColumn first ''category'') 0 [] = Inr documents \<Longrightarrow>
   Client_ReleaseCollection (Client m) c b2 = (None, b3) \<Longrightarrow>
   Search ent m c query w =
     (Inr (documents, None),
      \<lparr>calls = calls w @ [LoadCollectionCall c False, search_request ent c v,
         ReleaseCollectionCall c],
       backend = b3\<rparr>)"
  by (simp add: Search_def issue_def search_response_def search_request_def)

text \<open>Every run of \<open>Search\<close> takes one of the seven paths.\<close>

lemma Search_paths:
  obtains
    (encode) v err where "Encode (Encoder m) query = (v, Some err)"
  | (load) v err b1 where "Encode (Encoder m) query = (v, None)"
      "Client_LoadCollection (Client m) c False (backend w) = (Some err, b1)"
  | (search) v b1 rs err b2 where "Encode (Encoder m) query = (v, None)"
      "Client_LoadCollection (Client m) c False (backend w) = (None, b1)"
      "search_response ent m c v b1 = ((rs, Some err), b2)"
  | (empty) v b1 b2 where "Encode (Encoder m) query = (v, None)"
      "Client_LoadCollection (Client m) c False (backend w) = (None, b1)"
      "search_response ent m c v b1 = (([], None), b2)"
  | (panic) v b1 first others b2 p where "Encode (Encoder m) query = (v, None)"
      "Client_LoadCollection (Client m) c False (backend w) = (None, b1)"
      "search_response ent m c v b1 = ((first # others, None), b2)"
      "decode_loop (GetColumn first ''title'') (GetColumn first ''content'')
         (GetColumn first ''category'') 0 [] = Inl p"
  | (release) v b1 first others b2 documents err b3 where "Encode (Encoder m) query = (v, None)"
      "Client_LoadCollection (Client m) c False (backend w) = (None, b1)"
      "search_response ent m c v b1 = ((first # others, None), b2)"
      "decode_loop (GetColumn first ''title'') (GetColumn first ''content'')
         (GetColumn first ''category'') 0 [] = Inr documents"
      "Client_ReleaseCollection (Client m) c b2 = (Some err, b3)"
  | (success) v b1 first others b2 documents b3 where "Encode (Encoder m) query = (v, None)"
      "Client_LoadCollection (Client m) c False (backend w) = (None, b1)"
      "search_response ent m c v b1 = ((first # others, None), b2)"
      "decode_loop (GetColumn first ''title'') (GetColumn first ''content'')
         (GetColumn first ''category'') 0 [] = Inr documents"
      "Client_ReleaseCollection (Client m) c b2 = (None, b3)"
proof -
  obtain v e0 where enc: "Encode (Encoder m) query = (v, e0)"
    by (cases "Encode (Encoder m) query") auto
  obtain e1 b1 where ld: "Client_LoadCollection (Client m) c False (backend w) = (e1, b1)"
    by (cases "Client_LoadCollection (Client m) c False (backend w)") auto
  obtain rs e2 b2 where sr: "search_response ent m c v b1 = ((rs, e2), b2)"
    by (cases "search_response ent m c v b1") auto
  obtain e3 b3 where rl: "Client_ReleaseCollection (Client m) c b2 = (e3, b3)"
    by (cases "Client_ReleaseCollection (Client m) c b2") auto
  show thesis
  proof (cases e0)
    case (Some err)
    with enc encode show thesis by blast
  next
    case e0: None
    show thesis
    proof (cases e1)
      case (Some err)
      with enc e0 ld load show thesis by blast
    next
      case e1: None
      show thesis
      proof (cases e2)
        case (Some err)
        with enc e0 ld e1 sr search show thesis by blast
      next
        case e2: None
        show thesis
        proof (cases rs)
          case Nil
          with enc e0 ld e1 sr e2 empty show thesis by blast
        next
          case (Cons first others)
          show thesis
          proof (cases "decode_loop (GetColumn first ''title'') (GetColumn first ''content'')
                   (GetColumn first ''category'') 0 []")
            case (Inl p)
            with enc e0 ld e1 sr e2 Cons panic show thesis by blast
          next
            case (Inr documents)
            show thesis
            proof (cases e3)
              case None
              with enc e0 ld e1 sr e2 Cons Inr rl success show thesis by blast
            next
              case (Some err)
              with enc e0 ld e1 sr e2 Cons Inr rl release show thesis by blast
            qed
          qed
        qed
      qed
    qed
  qed
qed

lemma Search_issued:
  "issued w (snd (Search ent m c query w)) \<in>
     {[], [LoadCollectionCall c False],
      [LoadCollectionCall c False, search_request ent c (fst (Encode (Encoder m) query))],
      [LoadCollectionCall c False, search_request ent c (fst (Encode (Encoder m) query)),
       ReleaseCollectionCall c]}"
proof (cases rule: Search_paths [where m = m and query = query and c = c and w = w and ent = ent])
  case (encode v err)
  then show ?thesis by (simp add: Search_encode_fails issued_def)
next
  case (load v err b1)
  then show ?thesis by (simp add: Search_load_fails issued_def)
next
  case (search v b1 rs err b2)
  then show ?thesis by (simp add: Search_search_fails issued_def)
next
  case (empty v b1 b2)
  then show ?thesis by (simp add: Search_no_result_set issued_def)
next
  case (panic v b1 first others b2 p)
  then show ?thesis by (simp add: Search_decode_panics issued_def)
next
  case (release v b1 first others b2 documents err b3)
  then show ?thesis by (simp add: Search_release_fails issued_def)
next
  case (success v b1 first others b2 documents b3)
  then show ?thesis by (simp add: Search_succeeds issued_def)
qed

lemma opt_sets:
  "Limit (opt base) = 3" "Offset (opt base) = 0" "ConsistencyLevel (opt base) = ClStrong"
  "IgnoreGrowing (opt base) = False"
  by (simp_all add: opt_def)

lemma fake_run:
  "Search (fake_entity NoFault) (fake_repo NoFault) ''docs'' ''query'' world0 =
     (Inr ([\<lparr>ID = '''', Title = ''T0'', Content = ''C0'', Category = ''G0''\<rparr>,
            \<lparr>ID = '''', Title = ''T1'', Content = ''C1'', Category = ''G1''\<rparr>], None),
      \<lparr>calls = [LoadCollectionCall ''docs'' False,
                search_request (fake_entity NoFault) ''docs'' [5],
                ReleaseCollectionCall ''docs''],
       backend = 3\<rparr>)"
  by (simp add: Search_def issue_def search_request_def fake_entity_def fake_repo_def
        fake_client_def fake_encoder_def fake_result_def fake_column_def refuse_def world0_def)

lemma fake_run_issued:
  "issued world0
     (snd (Search (fake_entity NoFault) (fake_repo NoFault) ''docs'' ''query'' world0)) =
     [LoadCollectionCall ''docs'' False,
      SearchCall ''docs'' [] '''' [''title'', ''content'', ''category''] [FloatVector [5]]
        ''embedding'' COSINE 10 (Some (IndexIvfFlatSearchParam 10)) [opt],
      ReleaseCollectionCall ''docs'']"
  unfolding fake_run
  by (simp add: issued_def world0_def search_request_def fake_entity_def)

text \<open>
  C1 (as amended). Every search call that an invocation of \<open>Search\<close> issues carries
  option functions that, applied to whatever option record the client starts from, set
  the limit to 3, the offset to 0, the consistency level to strong, and
  \<open>IgnoreGrowing\<close> to false: growing segments are not excluded from the candidates.
\<close>

theorem Search_request_configuration:
  assumes "SearchCall name partitions expr outputFields vectors field metric topK sp opts
             \<in> set (issued w (snd (Search ent m collectionName query w)))"
  shows "Limit (configure opts base) = 3
       \<and> Offset (configure opts base) = 0
       \<and> ConsistencyLevel (configure opts base) = ClStrong
       \<and> IgnoreGrowing (configure opts base) = False"
proof -
  from assms Search_issued [of w ent m collectionName query]
  have "SearchCall name partitions expr outputFields vectors field metric topK sp opts =
      search_request ent collectionName (fst (Encode (Encoder m) query))"
    by auto
  then have "opts = [opt]"
    by (simp add: search_request_def)
  then show ?thesis
    by (simp add: configure_def opt_sets)
qed

text \<open>
  A run of the scripted repository issues such a search call.
\<close>

theorem Search_request_configuration_witness:
  "SearchCall ''docs'' [] '''' [''title'', ''content'', ''category''] [FloatVector [5]]
     ''embedding'' COSINE 10 (Some (IndexIvfFlatSearchParam 10)) [opt]
     \<in> set (issued world0
          (snd (Search (fake_entity NoFault) (fake_repo NoFault) ''docs'' ''query'' world0)))
   \<and> Limit (configure [opt]
        \<lparr>Limit = 10, Offset = 7, ConsistencyLevel = ClBounded, IgnoreGrowing = True\<rparr>) = 3
   \<and> Offset (configure [opt]
        \<lparr>Limit = 10, Offset = 7, ConsistencyLevel = ClBounded, IgnoreGrowing = True\<rparr>) = 0
   \<and> ConsistencyLevel (configure [opt]
        \<lparr>Limit = 10, Offset = 7, ConsistencyLevel = ClBounded, IgnoreGrowing = True\<rparr>) = ClStrong
   \<and> IgnoreGrowing (configure [opt]
        \<lparr>Limit = 10, Offset = 7, ConsistencyLevel = ClBounded, IgnoreGrowing = True\<rparr>) = False"
proof -
  have h: "SearchCall ''docs'' [] '''' [''title'', ''content'', ''category''] [FloatVector [5]]
     ''embedding'' COSINE 10 (Some (IndexIvfFlatSearchParam 10)) [opt]
     \<in> set (issued world0
          (snd (Search (fake_entity NoFault) (fake_repo NoFault) ''docs'' ''query'' world0)))"
    by (simp add: fake_run_issued)
  from h Search_request_configuration [OF h] show ?thesis
    by blast
qed

text \<open>
  The claim as stated fails: the search call of a concrete run leaves \<open>IgnoreGrowing\<close>
  false, also when the option record it starts from asked for growing segments to be
  ignored.
\<close>

theorem Search_growing_not_excluded:
  "SearchCall ''docs'' [] '''' [''title'', ''content'', ''category''] [FloatVector [5]]
     ''embedding'' COSINE 10 (Some (IndexIvfFlatSearchParam 10)) [opt]
     \<in> set (issued world0
          (snd (Search (fake_entity NoFault) (fake_repo NoFault) ''docs'' ''query'' world0)))
   \<and> IgnoreGrowing (configure [opt]
        \<lparr>Limit = 10, Offset = 7, ConsistencyLevel = ClBounded, IgnoreGrowing = True\<rparr>) = False
   \<and> IgnoreGrowing (configure [opt]
        \<lparr>Limit = 10, Offset = 7, ConsistencyLevel = ClBounded, IgnoreGrowing = False\<rparr>) = False"
  by (simp add: fake_run_issued configure_def opt_sets)

lemma fake_encode:
  "Encode (Encoder (fake_repo flt)) ''query'' = ([5], None)"
  by (simp add: fake_repo_def fake_encoder_def)

text \<open>
  C2. When the query encodes and the collection loads, and the client's search call
  fails, \<open>Search\<close> returns the wrapped search error having issued the load and the
  search call only: no release call is issued. A release call among the calls of an
  invocation implies that the client's search call returned without error.
\<close>

theorem Search_no_release_after_failed_search:
  assumes enc: "Encode (Encoder m) query = (v, None)"
      and load: "Client_LoadCollection (Client m) c False (backend w) = (None, b1)"
  shows "(\<forall>rs err b2. search_response ent m c v b1 = ((rs, Some err), b2) \<longrightarrow>
            Search ent m c query w =
              (Inr ([], Some (Errorf ''fail to search collection'' err)),
               \<lparr>calls = calls w @ [LoadCollectionCall c False, search_request ent c v],
                backend = b2\<rparr>)
          \<and> (\<forall>name. ReleaseCollectionCall name
                 \<notin> set (issued w (snd (Search ent m c query w)))))
       \<and> (\<forall>name. ReleaseCollectionCall name \<in> set (issued w (snd (Search ent m c query w)))
            \<longrightarrow> (\<exists>rs b2. search_response ent m c v b1 = ((rs, None), b2)))"
proof (intro conjI allI impI)
  fix rs err b2
  assume "search_response ent m c v b1 = ((rs, Some err), b2)"
  from Search_search_fails [OF enc load this]
  show "Search ent m c query w =
      (Inr ([], Some (Errorf ''fail to search collection'' err)),
       \<lparr>calls = calls w @ [LoadCollectionCall c False, search_request ent c v],
        backend = b2\<rparr>)" .
  then show "ReleaseCollectionCall name \<notin> set (issued w (snd (Search ent m c query w)))"
    for name
    by (simp add: issued_def search_request_def)
next
  fix name
  assume rel: "ReleaseCollectionCall name \<in> set (issued w (snd (Search ent m c query w)))"
  obtain rs e2 b2 where sr: "search_response ent m c v b1 = ((rs, e2), b2)"
    by (cases "search_response ent m c v b1") auto
  show "\<exists>rs b2. search_response ent m c v b1 = ((rs, None), b2)"
  proof (cases e2)
    case None
    with sr show ?thesis by blast
  next
    case (Some err)
    with sr have "search_response ent m c v b1 = ((rs, Some err), b2)"
      by simp
    from Search_search_fails [OF enc load this] rel show ?thesis
      by (simp add: issued_def search_request_def)
  qed
qed

text \<open>
  A run of the scripted repository whose search call is refused.
\<close>

theorem Search_no_release_after_failed_search_witness:
  "search_response (fake_entity NoFault) (fake_repo SearchFails) ''docs'' [5] 1 =
     (([], Some (Error ''search refused'')), 2)
   \<and> Search (fake_entity NoFault) (fake_repo SearchFails) ''docs'' ''query'' world0 =
       (Inr ([], Some (Errorf ''fail to search collection'' (Error ''search refused''))),
        \<lparr>calls = [LoadCollectionCall ''docs'' False,
                  search_request (fake_entity NoFault) ''docs'' [5]],
         backend = 2\<rparr>)
   \<and> ReleaseCollectionCall ''docs''
       \<notin> set (issued world0
            (snd (Search (fake_entity NoFault) (fake_repo SearchFails) ''docs'' ''query'' world0)))"
proof -
  have load: "Client_LoadCollection (Client (fake_repo SearchFails)) ''docs'' False
      (backend world0) = (None, 1)"
    by (simp add: fake_repo_def fake_client_def refuse_def world0_def)
  have search: "search_response (fake_entity NoFault) (fake_repo SearchFails) ''docs'' [5] 1 =
      (([], Some (Error ''search refused'')), 2)"
    by (simp add: search_response_def fake_repo_def fake_client_def)
  have c0: "calls world0 = []"
    by (simp add: world0_def)
  note run = Search_no_release_after_failed_search [OF fake_encode load,
      where ent = "fake_entity NoFault", THEN conjunct1, rule_format, OF search]
  have r: "Search (fake_entity NoFault) (fake_repo SearchFails) ''docs'' ''query'' world0 =
       (Inr ([], Some (Errorf ''fail to search collection'' (Error ''search refused''))),
        \<lparr>calls = [LoadCollectionCall ''docs'' False,
                  search_request (fake_entity NoFault) ''docs'' [5]],
         backend = 2\<rparr>)"
    using run c0 by simp
  have n: "ReleaseCollectionCall ''docs''
       \<notin> set (issued world0
            (snd (Search (fake_entity NoFault) (fake_repo SearchFails) ''docs'' ''query'' world0)))"
    using run by blast
  from search r n show ?thesis
    by blast
qed

text \<open>
  C7. When the client's search call succeeds, the decoding loop builds the documents, and
  the release call fails, \<open>Search\<close> returns the wrapped release error with an empty
  document list, not the documents it built.
\<close>

theorem Search_release_failure_discards_results:
  assumes enc: "Encode (Encoder m) query = (v, None)"
      and load: "Client_LoadCollection (Client m) c False (backend w) = (None, b1)"
      and search: "search_response ent m c v b1 = ((first # others, None), b2)"
      and decode: "decode_loop (GetColumn first ''title'') (GetColumn first ''content'')
                     (GetColumn first ''category'') 0 [] = Inr documents"
      and release: "Client_ReleaseCollection (Client m) c b2 = (Some err, b3)"
  shows "Search ent m c query w =
           (Inr ([], Some (Errorf ''failed to release collection'' err)),
            \<lparr>calls = calls w @ [LoadCollectionCall c False, search_request ent c v,
               ReleaseCollectionCall c],
             backend = b3\<rparr>)"
  by (rule Search_release_fails [OF enc load search decode release])

lemma fake_decode:
  "flt \<noteq> NoContentColumn \<Longrightarrow> flt \<noteq> CellsFail \<Longrightarrow>
   decode_loop (GetColumn (fake_result flt) ''title'') (GetColumn (fake_result flt) ''content'')
     (GetColumn (fake_result flt) ''category'') 0 [] =
   Inr [\<lparr>ID = '''', Title = ''T0'', Content = ''C0'', Category = ''G0''\<rparr>,
        \<lparr>ID = '''', Title = ''T1'', Content = ''C1'', Category = ''G1''\<rparr>]"
  by (simp add: fake_result_def fake_column_def)

text \<open>
  A run of the scripted repository whose release call is refused after two documents
  were decoded.
\<close>

theorem Search_release_failure_discards_results_witness:
  "decode_loop (GetColumn (fake_result ReleaseFails) ''title'')
     (GetColumn (fake_result ReleaseFails) ''content'')
     (GetColumn (fake_result ReleaseFails) ''category'') 0 [] =
     Inr [\<lparr>ID = '''', Title = ''T0'', Content = ''C0'', Category = ''G0''\<rparr>,
          \<lparr>ID = '''', Title = ''T1'', Content = ''C1'', Category = ''G1''\<rparr>]
   \<and> Search (fake_entity NoFault) (fake_repo ReleaseFails) ''docs'' ''query'' world0 =
       (Inr ([], Some (Errorf ''failed to release collection'' (Error ''release refused''))),
        \<lparr>calls = [LoadCollectionCall ''docs'' False,
                  search_request (fake_entity NoFault) ''docs'' [5],
                  ReleaseCollectionCall ''docs''],
         backend = 3\<rparr>)"
proof -
  have load: "Client_LoadCollection (Client (fake_repo ReleaseFails)) ''docs'' False
      (backend world0) = (None, 1)"
    by (simp add: fake_repo_def fake_client_def refuse_def world0_def)
  have search: "search_response (fake_entity NoFault) (fake_repo ReleaseFails) ''docs'' [5] 1 =
      (([fake_result ReleaseFails], None), 2)"
    by (simp add: search_response_def fake_repo_def fake_client_def)
  have decode: "decode_loop (GetColumn (fake_result ReleaseFails) ''title'')
     (GetColumn (fake_result ReleaseFails) ''content'')
     (GetColumn (fake_result ReleaseFails) ''category'') 0 [] =
     Inr [\<lparr>ID = '''', Title = ''T0'', Content = ''C0'', Category = ''G0''\<rparr>,
          \<lparr>ID = '''', Title = ''T1'', Content = ''C1'', Category = ''G1''\<rparr>]"
    by (rule fake_decode) simp_all
  have release: "Client_ReleaseCollection (Client (fake_repo ReleaseFails)) ''docs'' 2 =
      (Some (Error ''release refused''), 3)"
    by (simp add: fake_repo_def fake_client_def refuse_def)
  have c0: "calls world0 = []"
    by (simp add: world0_def)
  from Search_release_failure_discards_results [OF fake_encode load search decode release]
    decode c0
  show ?thesis
    by simp
qed

text \<open>
  C9. After a successful client search call, \<open>Search\<close> reads the first result set
  without a check: on an empty list of result sets it panics with an index out of range
  (it returns no error value), and on a non-empty list that panic does not occur.
\<close>

theorem Search_panics_without_result_set:
  assumes enc: "Encode (Encoder m) query = (v, None)"
      and load: "Client_LoadCollection (Client m) c False (backend w) = (None, b1)"
      and search: "search_response ent m c v b1 = ((rs, None), b2)"
  shows "(rs = [] \<longrightarrow>
            Search ent m c query w =
              (Inl IndexOutOfRange,
               \<lparr>calls = calls w @ [LoadCollectionCall c False, search_request ent c v],
                backend = b2\<rparr>))
       \<and> (rs \<noteq> [] \<longrightarrow> fst (Search ent m c query w) \<noteq> Inl IndexOutOfRange)"
proof (intro conjI impI)
  assume "rs = []"
  with search have "search_response ent m c v b1 = (([], None), b2)"
    by simp
  from Search_no_result_set [OF enc load this]
  show "Search ent m c query w =
      (Inl IndexOutOfRange,
       \<lparr>calls = calls w @ [LoadCollectionCall c False, search_request ent c v],
        backend = b2\<rparr>)" .
next
  assume "rs \<noteq> []"
  then obtain first others where rs: "rs = first # others"
    by (cases rs) auto
  with search have sr: "search_response ent m c v b1 = ((first # others, None), b2)"
    by simp
  obtain e3 b3 where rl: "Client_ReleaseCollection (Client m) c b2 = (e3, b3)"
    by (cases "Client_ReleaseCollection (Client m) c b2") auto
  show "fst (Search ent m c query w) \<noteq> Inl IndexOutOfRange"
  proof (cases "decode_loop (GetColumn first ''title'') (GetColumn first ''content'')
           (GetColumn first ''category'') 0 []")
    case (Inl p)
    from decode_loop_panic [OF Inl] have "p = NilDereference" .
    with Search_decode_panics [OF enc load sr Inl] show ?thesis
      by simp
  next
    case (Inr documents)
    show ?thesis
    proof (cases e3)
      case None
      with rl Search_succeeds [OF enc load sr Inr] show ?thesis by simp
    next
      case (Some err)
      with rl Search_release_fails [OF enc load sr Inr] show ?thesis by simp
    qed
  qed
qed

text \<open>
  Two runs of the scripted repository: one whose search call answers with no result set,
  one with a result set.
\<close>

theorem Search_panics_without_result_set_witness:
  "search_response (fake_entity NoFault) (fake_repo NoResultSet) ''docs'' [5] 1 =
     (([], None), 2)
   \<and> Search (fake_entity NoFault) (fake_repo NoResultSet) ''docs'' ''query'' world0 =
       (Inl IndexOutOfRange,
        \<lparr>calls = [LoadCollectionCall ''docs'' False,
                  search_request (fake_entity NoFault) ''docs'' [5]],
         backend = 2\<rparr>)
   \<and> search_response (fake_entity NoFault) (fake_repo NoFault) ''docs'' [5] 1 =
       (([fake_result NoFault], None), 2)
   \<and> fst (Search (fake_entity NoFault) (fake_repo NoFault) ''docs'' ''query'' world0)
       \<noteq> Inl IndexOutOfRange"
proof -
  have load: "Client_LoadCollection (Client (fake_repo NoResultSet)) ''docs'' False
      (backend world0) = (None, 1)"
    by (simp add: fake_repo_def fake_client_def refuse_def world0_def)
  have search: "search_response (fake_entity NoFault) (fake_repo NoResultSet) ''docs'' [5] 1 =
      (([], None), 2)"
    by (simp add: search_response_def fake_repo_def fake_client_def)
  have load': "Client_LoadCollection (Client (fake_repo NoFault)) ''docs'' False
      (backend world0) = (None, 1)"
    by (simp add: fake_repo_def fake_client_def refuse_def world0_def)
  have search': "search_response (fake_entity NoFault) (fake_repo NoFault) ''docs'' [5] 1 =
      (([fake_result NoFault], None), 2)"
    by (simp add: search_response_def fake_repo_def fake_client_def)
  have c0: "calls world0 = []"
    by (simp add: world0_def)
  from Search_panics_without_result_set [OF fake_encode load search]
    Search_panics_without_result_set [OF fake_encode load' search']
    search search' c0
  show ?thesis
    by simp
qed

text \<open>
  C8. When \<open>Search\<close> returns documents without an error, every returned document has
  the empty string as its identifier; its title, content and category are the strings
  that the \<open>title\<close>, \<open>content\<close> and \<open>category\<close> columns of the first result set give
  at its position; and the search call that was issued asks for exactly these three
  output fields, so not for \<open>id\<close>.
\<close>

theorem Search_results_without_id:
  assumes ok: "Search ent m c query w = (Inr (documents, None), w')"
  shows "(\<forall>d\<in>set documents. ID d = '''')
       \<and> (\<exists>v b1 first others b2 tcol.
             Encode (Encoder m) query = (v, None)
           \<and> Client_LoadCollection (Client m) c False (backend w) = (None, b1)
           \<and> search_response ent m c v b1 = ((first # others, None), b2)
           \<and> GetColumn first ''title'' = Some tcol
           \<and> length documents = nat (Len tcol)
           \<and> (\<forall>i<length documents. \<exists>ccol gcol.
                 GetColumn first ''content'' = Some ccol
               \<and> GetColumn first ''category'' = Some gcol
               \<and> documents ! i =
                   \<lparr>ID = '''',
                    Title = fst (GetAsString tcol (int i)),
                    Content = fst (GetAsString ccol (int i)),
                    Category = fst (GetAsString gcol (int i))\<rparr>))
       \<and> (\<forall>name partitions expr outputFields vectors field metric topK sp opts.
             SearchCall name partitions expr outputFields vectors field metric topK sp opts
               \<in> set (issued w w')
             \<longrightarrow> outputFields = [''title'', ''content'', ''category'']
               \<and> ''id'' \<notin> set outputFields)"
proof (cases rule: Search_paths [where m = m and query = query and c = c and w = w and ent = ent])
  case (encode v err)
  from Search_encode_fails [OF encode] ok show ?thesis by simp
next
  case (load v err b1)
  from Search_load_fails [OF load] ok show ?thesis by simp
next
  case (search v b1 rs err b2)
  from Search_search_fails [OF search] ok show ?thesis by simp
next
  case (empty v b1 b2)
  from Search_no_result_set [OF empty] ok show ?thesis by simp
next
  case (panic v b1 first others b2 p)
  from Search_decode_panics [OF panic] ok show ?thesis by simp
next
  case (release v b1 first others b2 docs err b3)
  from Search_release_fails [OF release] ok show ?thesis by simp
next
  case (success v b1 first others b2 docs b3)
  from Search_succeeds [OF success] ok
  have docs: "docs = documents"
    and w': "w' = \<lparr>calls = calls w @ [LoadCollectionCall c False, search_request ent c v,
         ReleaseCollectionCall c], backend = b3\<rparr>"
    by simp_all
  from decode_loop_Inr [OF success(4)] docs
  obtain tcol where tcol: "GetColumn first ''title'' = Some tcol"
    and len: "length documents = nat (Len tcol)"
    and nth: "\<forall>k<length documents. \<exists>ccol gcol.
        GetColumn first ''content'' = Some ccol \<and> GetColumn first ''category'' = Some gcol
        \<and> documents ! k = decoded tcol ccol gcol (int k)"
    by auto
  have ids: "\<forall>d\<in>set documents. ID d = ''''"
  proof
    fix d
    assume "d \<in> set documents"
    then obtain k where "k < length documents" "d = documents ! k"
      by (auto simp: in_set_conv_nth)
    with nth show "ID d = ''''"
      by (auto simp: decoded_def)
  qed
  have cols: "\<exists>v b1 first others b2 tcol.
             Encode (Encoder m) query = (v, None)
           \<and> Client_LoadCollection (Client m) c False (backend w) = (None, b1)
           \<and> search_response ent m c v b1 = ((first # others, None), b2)
           \<and> GetColumn first ''title'' = Some tcol
           \<and> length documents = nat (Len tcol)
           \<and> (\<forall>i<length documents. \<exists>ccol gcol.
                 GetColumn first ''content'' = Some ccol
               \<and> GetColumn first ''category'' = Some gcol
               \<and> documents ! i =
                   \<lparr>ID = '''',
                    Title = fst (GetAsString tcol (int i)),
                    Content = fst (GetAsString ccol (int i)),
                    Category = fst (GetAsString gcol (int i))\<rparr>)"
  proof (intro exI conjI)
    show "Encode (Encoder m) query = (v, None)" by (rule success(1))
    show "Client_LoadCollection (Client m) c False (backend w) = (None, b1)"
      by (rule success(2))
    show "search_response ent m c v b1 = ((first # others, None), b2)"
      by (rule success(3))
    show "GetColumn first ''title'' = Some tcol" by (rule tcol)
    show "length documents = nat (Len tcol)" by (rule len)
    show "\<forall>i<length documents. \<exists>ccol gcol.
                 GetColumn first ''content'' = Some ccol
               \<and> GetColumn first ''category'' = Some gcol
               \<and> documents ! i =
                   \<lparr>ID = '''',
                    Title = fst (GetAsString tcol (int i)),
                    Content = fst (GetAsString ccol (int i)),
                    Category = fst (GetAsString gcol (int i))\<rparr>"
      using nth by (simp only: decoded_def)
  qed
  have out: "\<forall>name partitions expr outputFields vectors field metric topK sp opts.
             SearchCall name partitions expr outputFields vectors field metric topK sp opts
               \<in> set (issued w w')
             \<longrightarrow> outputFields = [''title'', ''content'', ''category'']
               \<and> ''id'' \<notin> set outputFields"
    by (auto simp: w' issued_def search_request_def)
  show ?thesis
    by (rule conjI [OF ids conjI [OF cols out]])
qed

text \<open>
  A successful run of the scripted repository.
\<close>

theorem Search_results_without_id_witness:
  "Search (fake_entity NoFault) (fake_repo NoFault) ''docs'' ''query'' world0 =
     (Inr ([\<lparr>ID = '''', Title = ''T0'', Content = ''C0'', Category = ''G0''\<rparr>,
            \<lparr>ID = '''', Title = ''T1'', Content = ''C1'', Category = ''G1''\<rparr>], None),
      \<lparr>calls = [LoadCollectionCall ''docs'' False,
                search_request (fake_entity NoFault) ''docs'' [5],
                ReleaseCollectionCall ''docs''],
       backend = 3\<rparr>)
   \<and> ID \<lparr>ID = '''', Title = ''T0'', Content = ''C0'', Category = ''G0''\<rparr> = ''''
   \<and> ID \<lparr>ID = '''', Title = ''T1'', Content = ''C1'', Category = ''G1''\<rparr> = ''''"
proof -
  from Search_results_without_id [OF fake_run, THEN conjunct1]
  have "ID \<lparr>ID = '''', Title = ''T0'', Content = ''C0'', Category = ''G0''\<rparr> = ''''"
    and "ID \<lparr>ID = '''', Title = ''T1'', Content = ''C1'', Category = ''G1''\<rparr> = ''''"
    by simp_all
  with fake_run show ?thesis
    by (intro conjI)
qed

text \<open>
  C10. When the search succeeds, the three columns are present and the release succeeds,
  \<open>Search\<close> returns one document per position of the title column and no error,
  whatever errors \<open>GetAsString\<close> reports: each field is the string that
  \<open>GetAsString\<close> returned, its error being dropped. So a cell whose decoding fails,
  returning the empty string with its error as the decoders of the client library do,
  gives an empty field.
\<close>

theorem Search_ignores_decoding_errors:
  assumes enc: "Encode (Encoder m) query = (v, None)"
      and load: "Client_LoadCollection (Client m) c False (backend w) = (None, b1)"
      and search: "search_response ent m c v b1 = ((first # others, None), b2)"
      and title: "GetColumn first ''title'' = Some tcol"
      and content: "GetColumn first ''content'' = Some ccol"
      and category: "GetColumn first ''category'' = Some gcol"
      and release: "Client_ReleaseCollection (Client m) c b2 = (None, b3)"
  shows "\<exists>documents.
           Search ent m c query w =
             (Inr (documents, None),
              \<lparr>calls = calls w @ [LoadCollectionCall c False, search_request ent c v,
                 ReleaseCollectionCall c],
               backend = b3\<rparr>)
         \<and> length documents = nat (Len tcol)
         \<and> (\<forall>i<length documents.
               documents ! i =
                 \<lparr>ID = '''',
                  Title = fst (GetAsString tcol (int i)),
                  Content = fst (GetAsString ccol (int i)),
                  Category = fst (GetAsString gcol (int i))\<rparr>
             \<and> (\<forall>err. GetAsString tcol (int i) = ('''', Some err)
                   \<longrightarrow> Title (documents ! i) = '''')
             \<and> (\<forall>err. GetAsString ccol (int i) = ('''', Some err)
                   \<longrightarrow> Content (documents ! i) = '''')
             \<and> (\<forall>err. GetAsString gcol (int i) = ('''', Some err)
                   \<longrightarrow> Category (documents ! i) = ''''))"
proof -
  have "\<exists>out. decode_loop (Some tcol) (Some ccol) (Some gcol) 0 [] = Inr out"
    by (rule exI) (rule decode_loop_present)
  then obtain out where decode: "decode_loop (GetColumn first ''title'')
      (GetColumn first ''content'') (GetColumn first ''category'') 0 [] = Inr out"
    unfolding title content category by (elim exE)
  from decode_loop_Inr [OF decode]
  obtain t' new where t': "GetColumn first ''title'' = Some t'"
    and new: "out = [] @ new"
    and ln: "length new = nat (Len t' - 0)"
    and nn: "\<forall>k<length new. \<exists>cc gc. GetColumn first ''content'' = Some cc
          \<and> GetColumn first ''category'' = Some gc
          \<and> new ! k = decoded t' cc gc (0 + int k)"
    by (elim exE conjE) (rule that)
  from t' title have teq: "t' = tcol"
    by simp
  from new have neq: "new = out"
    by simp
  from ln teq neq have len: "length out = nat (Len tcol)"
    by simp
  have nth: "out ! i = decoded tcol ccol gcol (int i)" if "i < length out" for i
  proof -
    from nn that neq obtain cc gc where "GetColumn first ''content'' = Some cc"
      "GetColumn first ''category'' = Some gc" "out ! i = decoded t' cc gc (0 + int i)"
      by blast
    with content category teq show ?thesis
      by simp
  qed
  have fields: "\<forall>i<length out.
               out ! i =
                 \<lparr>ID = '''',
                  Title = fst (GetAsString tcol (int i)),
                  Content = fst (GetAsString ccol (int i)),
                  Category = fst (GetAsString gcol (int i))\<rparr>
             \<and> (\<forall>err. GetAsString tcol (int i) = ('''', Some err)
                   \<longrightarrow> Title (out ! i) = '''')
             \<and> (\<forall>err. GetAsString ccol (int i) = ('''', Some err)
                   \<longrightarrow> Content (out ! i) = '''')
             \<and> (\<forall>err. GetAsString gcol (int i) = ('''', Some err)
                   \<longrightarrow> Category (out ! i) = '''')"
  proof (intro allI impI)
    fix i
    assume "i < length out"
    then have "out ! i = decoded tcol ccol gcol (int i)"
      by (rule nth)
    then show "out ! i =
                 \<lparr>ID = '''',
                  Title = fst (GetAsString tcol (int i)),
                  Content = fst (GetAsString ccol (int i)),
                  Category = fst (GetAsString gcol (int i))\<rparr>
             \<and> (\<forall>err. GetAsString tcol (int i) = ('''', Some err)
                   \<longrightarrow> Title (out ! i) = '''')
             \<and> (\<forall>err. GetAsString ccol (int i) = ('''', Some err)
                   \<longrightarrow> Content (out ! i) = '''')
             \<and> (\<forall>err. GetAsString gcol (int i) = ('''', Some err)
                   \<longrightarrow> Category (out ! i) = '''')"
      by (simp add: decoded_def)
  qed
  show ?thesis
    by (rule exI [of _ out])
      (rule conjI [OF Search_succeeds [OF enc load search decode release] conjI [OF len fields]])
qed

lemma list_of_two: "length xs = 2 \<Longrightarrow> xs = [xs ! 0, xs ! Suc 0]"
  by (auto simp: numeral_2_eq_2 length_Suc_conv)

text \<open>
  A run of the scripted repository in which the decoding of every cell fails.
\<close>

theorem Search_ignores_decoding_errors_witness:
  "GetAsString (fake_column CellsFail [''T0'', ''T1'']) 0 = ('''', Some (Error ''not supported''))
   \<and> GetAsString (fake_column CellsFail [''C0'', ''C1'']) 1 = ('''', Some (Error ''not supported''))
   \<and> Search (fake_entity NoFault) (fake_repo CellsFail) ''docs'' ''query'' world0 =
       (Inr ([\<lparr>ID = '''', Title = '''', Content = '''', Category = ''''\<rparr>,
              \<lparr>ID = '''', Title = '''', Content = '''', Category = ''''\<rparr>], None),
        \<lparr>calls = [LoadCollectionCall ''docs'' False,
                  search_request (fake_entity NoFault) ''docs'' [5],
                  ReleaseCollectionCall ''docs''],
         backend = 3\<rparr>)"
proof -
  have load: "Client_LoadCollection (Client (fake_repo CellsFail)) ''docs'' False
      (backend world0) = (None, 1)"
    by (simp add: fake_repo_def fake_client_def refuse_def world0_def)
  have search: "search_response (fake_entity NoFault) (fake_repo CellsFail) ''docs'' [5] 1 =
      (([fake_result CellsFail], None), 2)"
    by (simp add: search_response_def fake_repo_def fake_client_def)
  have title: "GetColumn (fake_result CellsFail) ''title'' =
      Some (fake_column CellsFail [''T0'', ''T1''])"
    by (simp add: fake_result_def)
  have content: "GetColumn (fake_result CellsFail) ''content'' =
      Some (fake_column CellsFail [''C0'', ''C1''])"
    by (simp add: fake_result_def)
  have category: "GetColumn (fake_result CellsFail) ''category'' =
      Some (fake_column CellsFail [''G0'', ''G1''])"
    by (simp add: fake_result_def)
  have release: "Client_ReleaseCollection (Client (fake_repo CellsFail)) ''docs'' 2 = (None, 3)"
    by (simp add: fake_repo_def fake_client_def refuse_def)
  have cell: "GetAsString (fake_column CellsFail cells) i = ('''', Some (Error ''not supported''))"
    for cells i
    by (simp add: fake_column_def)
  have len: "Len (fake_column CellsFail [''T0'', ''T1'']) = 2"
    by (simp add: fake_column_def)
  from Search_ignores_decoding_errors [OF fake_encode load search title content category release]
  obtain documents where
    run: "Search (fake_entity NoFault) (fake_repo CellsFail) ''docs'' ''query'' world0 =
       (Inr (documents, None),
        \<lparr>calls = calls world0 @ [LoadCollectionCall ''docs'' False,
           search_request (fake_entity NoFault) ''docs'' [5], ReleaseCollectionCall ''docs''],
         backend = 3\<rparr>)"
    and l0: "length documents = nat (Len (fake_column CellsFail [''T0'', ''T1'']))"
    and f0: "\<forall>i<length documents.
        documents ! i =
          \<lparr>ID = '''',
           Title = fst (GetAsString (fake_column CellsFail [''T0'', ''T1'']) (int i)),
           Content = fst (GetAsString (fake_column CellsFail [''C0'', ''C1'']) (int i)),
           Category = fst (GetAsString (fake_column CellsFail [''G0'', ''G1'']) (int i))\<rparr>
         \<and> (\<forall>err. GetAsString (fake_column CellsFail [''T0'', ''T1'']) (int i) = ('''', Some err)
               \<longrightarrow> Title (documents ! i) = '''')
         \<and> (\<forall>err. GetAsString (fake_column CellsFail [''C0'', ''C1'']) (int i) = ('''', Some err)
               \<longrightarrow> Content (documents ! i) = '''')
         \<and> (\<forall>err. GetAsString (fake_column CellsFail [''G0'', ''G1'']) (int i) = ('''', Some err)
               \<longrightarrow> Category (documents ! i) = '''')"
    by (elim exE conjE) (rule that)
  from l0 len have l: "length documents = 2"
    by simp
  have f: "documents ! i =
          \<lparr>ID = '''',
           Title = fst (GetAsString (fake_column CellsFail [''T0'', ''T1'']) (int i)),
           Content = fst (GetAsString (fake_column CellsFail [''C0'', ''C1'']) (int i)),
           Category = fst (GetAsString (fake_column CellsFail [''G0'', ''G1'']) (int i))\<rparr>"
    if "i < 2" for i
    using f0 [rule_format, of i] that l by simp
  have e: "documents ! 0 = \<lparr>ID = '''', Title = '''', Content = '''', Category = ''''\<rparr>"
      "documents ! Suc 0 = \<lparr>ID = '''', Title = '''', Content = '''', Category = ''''\<rparr>"
    using f [of 0] f [of "Suc 0"] by (simp_all add: cell)
  have "documents = [\<lparr>ID = '''', Title = '''', Content = '''', Category = ''''\<rparr>,
              \<lparr>ID = '''', Title = '''', Content = '''', Category = ''''\<rparr>]"
    by (subst list_of_two [OF l]) (simp only: e)
  with run cell show ?thesis
    by (simp add: world0_def)
qed

subsection \<open>Collection management\<close>

lemma CreateCollection_create_fails:
  "Client_CreateCollection (Client m) (defineSchema name) DefaultShardNumber (backend w) =
     (Some err, b1) \<Longrightarrow>
   CreateCollection ent m name w =
     (Some (Errorf ''failed to create collection'' err),
      \<lparr>calls = calls w @ [CreateCollectionCall (defineSchema name) DefaultShardNumber],
       backend = b1\<rparr>)"
  by (simp add: CreateCollection_def issue_def)

lemma CreateCollection_param_fails:
  "Client_CreateCollection (Client m) (defineSchema name) DefaultShardNumber (backend w) =
     (None, b1) \<Longrightarrow>
   NewIndexIvfFlat ent COSINE 1024 = (idx, Some err) \<Longrightarrow>
   CreateCollection ent m name w =
     (Some (Errorf ''failed to build index''
        (Errorf ''fail to create IVF flat index parameter'' err)),
      \<lparr>calls = calls w @ [CreateCollectionCall (defineSchema name) DefaultShardNumber],
       backend = b1\<rparr>)"
  by (simp add: CreateCollection_def buildIndex_def issue_def)

lemma CreateCollection_index_fails:
  "Client_CreateCollection (Client m) (defineSchema name) DefaultShardNumber (backend w) =
     (None, b1) \<Longrightarrow>
   NewIndexIvfFlat ent COSINE 1024 = (idx, None) \<Longrightarrow>
   Client_CreateIndex (Client m) name ''embedding'' idx False b1 = (Some err, b2) \<Longrightarrow>
   CreateCollection ent m name w =
     (Some (Errorf ''failed to build index'' (Errorf ''fail to create index'' err)),
      \<lparr>calls = calls w @ [CreateCollectionCall (defineSchema name) DefaultShardNumber,
         CreateIndexCall name ''embedding'' idx False],
       backend = b2\<rparr>)"
  by (simp add: CreateCollection_def buildIndex_def issue_def)

lemma CreateCollection_succeeds:
  "Client_CreateCollection (Client m) (defineSchema name) DefaultShardNumber (backend w) =
     (None, b1) \<Longrightarrow>
   NewIndexIvfFlat ent COSINE 1024 = (idx, None) \<Longrightarrow>
   Client_CreateIndex (Client m) name ''embedding'' idx False b1 = (None, b2) \<Longrightarrow>
   CreateCollection ent m name w =
     (None,
      \<lparr>calls = calls w @ [CreateCollectionCall (defineSchema name) DefaultShardNumber,
         CreateIndexCall name ''embedding'' idx False],
       backend = b2\<rparr>)"
  by (simp add: CreateCollection_def buildIndex_def issue_def)

lemma CreateCollection_issued:
  "\<exists>rest. issued w (snd (CreateCollection ent m name w)) =
       CreateCollectionCall (defineSchema name) DefaultShardNumber # rest
     \<and> (rest = [] \<or> (\<exists>idx. rest = [CreateIndexCall name ''embedding'' idx False]))"
proof -
  obtain r1 b1 where sub:
    "Client_CreateCollection (Client m) (defineSchema name) DefaultShardNumber (backend w) =
       (r1, b1)"
    by (cases "Client_CreateCollection (Client m) (defineSchema name) DefaultShardNumber
          (backend w)") auto
  obtain idx e where new: "NewIndexIvfFlat ent COSINE 1024 = (idx, e)"
    by (cases "NewIndexIvfFlat ent COSINE 1024") auto
  obtain r2 b2 where ix: "Client_CreateIndex (Client m) name ''embedding'' idx False b1 = (r2, b2)"
    by (cases "Client_CreateIndex (Client m) name ''embedding'' idx False b1") auto
  show ?thesis
  proof (cases r1)
    case (Some err)
    with sub CreateCollection_create_fails [of m name w err b1 ent] show ?thesis
      by (simp add: issued_def)
  next
    case r1: None
    show ?thesis
    proof (cases e)
      case (Some err)
      with sub r1 new CreateCollection_param_fails [of m name w b1 ent idx err] show ?thesis
        by (simp add: issued_def)
    next
      case e: None
      show ?thesis
      proof (cases r2)
        case (Some err)
        with sub r1 new e ix CreateCollection_index_fails [of m name w b1 ent idx err b2]
        show ?thesis
          by (simp add: issued_def)
      next
        case None
        with sub r1 new e ix CreateCollection_succeeds [of m name w b1 ent idx b2]
        show ?thesis
          by (simp add: issued_def)
      qed
    qed
  qed
qed

text \<open>
  C5. \<open>CreateCollection\<close> first submits the schema of the name with the default shard
  number; whatever follows in the log is a call creating the index, and no call drops a
  collection. If the submission fails, the wrapped error is returned with nothing issued
  after the submission: the index is not attempted. If the submission succeeds and the
  index construction fails (in building its parameters, or in the client's call), the
  wrapped error is returned and the collection is left as it is: no rollback.
\<close>

theorem CreateCollection_steps:
  assumes sub:
    "Client_CreateCollection (Client m) (defineSchema name) DefaultShardNumber (backend w) =
       (r1, b1)"
  shows "(\<exists>rest. issued w (snd (CreateCollection ent m name w)) =
              CreateCollectionCall (defineSchema name) DefaultShardNumber # rest
            \<and> (\<forall>c\<in>set rest. \<exists>idx. c = CreateIndexCall name ''embedding'' idx False))
       \<and> (\<forall>n. DropCollectionCall n \<notin> set (issued w (snd (CreateCollection ent m name w))))
       \<and> (\<forall>err. r1 = Some err \<longrightarrow>
            CreateCollection ent m name w =
              (Some (Errorf ''failed to create collection'' err),
               \<lparr>calls = calls w @ [CreateCollectionCall (defineSchema name) DefaultShardNumber],
                backend = b1\<rparr>))
       \<and> (\<forall>idx err. r1 = None \<and> NewIndexIvfFlat ent COSINE 1024 = (idx, Some err) \<longrightarrow>
            CreateCollection ent m name w =
              (Some (Errorf ''failed to build index''
                 (Errorf ''fail to create IVF flat index parameter'' err)),
               \<lparr>calls = calls w @ [CreateCollectionCall (defineSchema name) DefaultShardNumber],
                backend = b1\<rparr>))
       \<and> (\<forall>idx err b2. r1 = None \<and> NewIndexIvfFlat ent COSINE 1024 = (idx, None)
              \<and> Client_CreateIndex (Client m) name ''embedding'' idx False b1 = (Some err, b2)
            \<longrightarrow>
            CreateCollection ent m name w =
              (Some (Errorf ''failed to build index'' (Errorf ''fail to create index'' err)),
               \<lparr>calls = calls w @ [CreateCollectionCall (defineSchema name) DefaultShardNumber,
                  CreateIndexCall name ''embedding'' idx False],
                backend = b2\<rparr>))"
proof (intro conjI allI impI)
  from CreateCollection_issued [of w ent m name]
  obtain rest where rest: "issued w (snd (CreateCollection ent m name w)) =
       CreateCollectionCall (defineSchema name) DefaultShardNumber # rest"
    and shape: "rest = [] \<or> (\<exists>idx. rest = [CreateIndexCall name ''embedding'' idx False])"
    by (elim exE conjE)
  from shape have only: "\<forall>c\<in>set rest. \<exists>idx. c = CreateIndexCall name ''embedding'' idx False"
    by auto
  from rest only
  show "\<exists>rest. issued w (snd (CreateCollection ent m name w)) =
              CreateCollectionCall (defineSchema name) DefaultShardNumber # rest
            \<and> (\<forall>c\<in>set rest. \<exists>idx. c = CreateIndexCall name ''embedding'' idx False)"
    by (intro exI conjI)
  from rest shape
  show "DropCollectionCall n \<notin> set (issued w (snd (CreateCollection ent m name w)))" for n
    by auto
next
  fix err
  assume "r1 = Some err"
  with sub show "CreateCollection ent m name w =
      (Some (Errorf ''failed to create collection'' err),
       \<lparr>calls = calls w @ [CreateCollectionCall (defineSchema name) DefaultShardNumber],
        backend = b1\<rparr>)"
    by (simp add: CreateCollection_create_fails)
next
  fix idx err
  assume "r1 = None \<and> NewIndexIvfFlat ent COSINE 1024 = (idx, Some err)"
  with sub show "CreateCollection ent m name w =
      (Some (Errorf ''failed to build index''
         (Errorf ''fail to create IVF flat index parameter'' err)),
       \<lparr>calls = calls w @ [CreateCollectionCall (defineSchema name) DefaultShardNumber],
        backend = b1\<rparr>)"
    by (simp add: CreateCollection_param_fails)
next
  fix idx err b2
  assume "r1 = None \<and> NewIndexIvfFlat ent COSINE 1024 = (idx, None)
     \<and> Client_CreateIndex (Client m) name ''embedding'' idx False b1 = (Some err, b2)"
  with sub show "CreateCollection ent m name w =
      (Some (Errorf ''failed to build index'' (Errorf ''fail to create index'' err)),
       \<lparr>calls = calls w @ [CreateCollectionCall (defineSchema name) DefaultShardNumber,
          CreateIndexCall name ''embedding'' idx False],
        backend = b2\<rparr>)"
    by (simp add: CreateCollection_index_fails)
qed

text \<open>
  Three runs of the scripted repository: the submission refused, the index parameters
  refused, the index call refused.
\<close>

theorem CreateCollection_steps_witness:
  "CreateCollection (fake_entity NoFault) (fake_repo CreateFails) ''docs'' world0 =
     (Some (Errorf ''failed to create collection'' (Error ''create refused'')),
      \<lparr>calls = [CreateCollectionCall (defineSchema ''docs'') DefaultShardNumber],
       backend = 1\<rparr>)
   \<and> CreateCollection (fake_entity IndexParamFails) (fake_repo NoFault) ''docs'' world0 =
     (Some (Errorf ''failed to build index''
        (Errorf ''fail to create IVF flat index parameter'' (Error ''nlist out of range''))),
      \<lparr>calls = [CreateCollectionCall (defineSchema ''docs'') DefaultShardNumber],
       backend = 1\<rparr>)
   \<and> CreateCollection (fake_entity NoFault) (fake_repo IndexFails) ''docs'' world0 =
     (Some (Errorf ''failed to build index''
        (Errorf ''fail to create index'' (Error ''index refused''))),
      \<lparr>calls = [CreateCollectionCall (defineSchema ''docs'') DefaultShardNumber,
         CreateIndexCall ''docs'' ''embedding'' (Some (IndexIvfFlat COSINE 1024)) False],
       backend = 2\<rparr>)
   \<and> DropCollectionCall ''docs''
       \<notin> set (issued world0
            (snd (CreateCollection (fake_entity NoFault) (fake_repo IndexFails) ''docs'' world0)))"
proof -
  have c0: "calls world0 = []"
    by (simp add: world0_def)
  have sub1: "Client_CreateCollection (Client (fake_repo CreateFails)) (defineSchema ''docs'')
      DefaultShardNumber (backend world0) = (Some (Error ''create refused''), 1)"
    by (simp add: fake_repo_def fake_client_def refuse_def world0_def)
  have sub2: "Client_CreateCollection (Client (fake_repo NoFault)) (defineSchema ''docs'')
      DefaultShardNumber (backend world0) = (None, 1)"
    by (simp add: fake_repo_def fake_client_def refuse_def world0_def)
  have sub3: "Client_CreateCollection (Client (fake_repo IndexFails)) (defineSchema ''docs'')
      DefaultShardNumber (backend world0) = (None, 1)"
    by (simp add: fake_repo_def fake_client_def refuse_def world0_def)
  have new2: "NewIndexIvfFlat (fake_entity IndexParamFails) COSINE 1024 =
      (None, Some (Error ''nlist out of range''))"
    by (simp add: fake_entity_def)
  have new3: "NewIndexIvfFlat (fake_entity NoFault) COSINE 1024 =
      (Some (IndexIvfFlat COSINE 1024), None)"
    by (simp add: fake_entity_def)
  have ix3: "Client_CreateIndex (Client (fake_repo IndexFails)) ''docs'' ''embedding''
      (Some (IndexIvfFlat COSINE 1024)) False 1 = (Some (Error ''index refused''), 2)"
    by (simp add: fake_repo_def fake_client_def refuse_def)
  note t1 = CreateCollection_steps [OF sub1, where ent = "fake_entity NoFault"]
  note t2 = CreateCollection_steps [OF sub2, where ent = "fake_entity IndexParamFails"]
  note t3 = CreateCollection_steps [OF sub3, where ent = "fake_entity NoFault"]
  have r1: "CreateCollection (fake_entity NoFault) (fake_repo CreateFails) ''docs'' world0 =
     (Some (Errorf ''failed to create collection'' (Error ''create refused'')),
      \<lparr>calls = [CreateCollectionCall (defineSchema ''docs'') DefaultShardNumber],
       backend = 1\<rparr>)"
    using t1 [THEN conjunct2, THEN conjunct2, THEN conjunct1, rule_format, OF refl] c0
    by simp
  have r2: "CreateCollection (fake_entity IndexParamFails) (fake_repo NoFault) ''docs'' world0 =
     (Some (Errorf ''failed to build index''
        (Errorf ''fail to create IVF flat index parameter'' (Error ''nlist out of range''))),
      \<lparr>calls = [CreateCollectionCall (defineSchema ''docs'') DefaultShardNumber],
       backend = 1\<rparr>)"
    using t2 [THEN conjunct2, THEN conjunct2, THEN conjunct2, THEN conjunct1, rule_format,
        OF conjI [OF refl new2]] c0
    by simp
  have r3: "CreateCollection (fake_entity NoFault) (fake_repo IndexFails) ''docs'' world0 =
     (Some (Errorf ''failed to build index''
        (Errorf ''fail to create index'' (Error ''index refused''))),
      \<lparr>calls = [CreateCollectionCall (defineSchema ''docs'') DefaultShardNumber,
         CreateIndexCall ''docs'' ''embedding'' (Some (IndexIvfFlat COSINE 1024)) False],
       backend = 2\<rparr>)"
    using t3 [THEN conjunct2, THEN conjunct2, THEN conjunct2, THEN conjunct2, rule_format,
        OF conjI [OF refl conjI [OF new3 ix3]]] c0
    by simp
  have r4: "DropCollectionCall ''docs''
       \<notin> set (issued world0
            (snd (CreateCollection (fake_entity NoFault) (fake_repo IndexFails) ''docs'' world0)))"
    using t3 [THEN conjunct2, THEN conjunct1] by (rule spec)
  show ?thesis
    by (rule conjI [OF r1 conjI [OF r2 conjI [OF r3 r4]]])
qed

end
